theory Spec2Isabelle
  imports Complex_Main
begin

section \<open>Python exceptions and numeric conventions\<close>

text \<open>
  The repository is Python on top of PyTorch: \<open>train.py\<close> holds the score function, the
  epoch driver \<open>train\<close> and \<open>evaluate\<close>; \<open>trainer.py\<close> holds the class \<open>Trainer\<close> with
  the step executor and the gradient aggregator.

  Tensor entries, losses, norms and learning rates are IEEE floats in the program; they
  are modelled as exact reals, so every statement below is about the arithmetic the code
  writes down, not about rounding.  A tensor is represented by its elements in row-major
  order: a vector is a \<open>real list\<close>, a matrix (batch \<times> classes) a list of rows.

  State is passed explicitly.  A function that can raise returns the state it leaves
  together with \<open>Inl\<close> of the exception or \<open>Inr\<close> of its value, since what it has
  mutated stays mutated when it raises.  What the model, the loss, the optimizer and the
  module \<open>utils\<close> do lies outside the two source files and enters as an input.

  Every exception the modelled code can raise is a value of \<open>exn\<close>; the strings are the
  messages.  \<open>_forward\<close> and \<open>_backward\<close> inspect the message of a \<open>RuntimeError\<close>.
\<close>

datatype exn =
    RuntimeError string
  | OverflowError string
  | UnboundLocalError string
  | TypeError string
  | AttributeError string
  | IndexError string
  | ZeroDivisionError string

type_synonym vec = "real list"
type_synonym matrix = "real list list"

text \<open>Python's \<open>needle in haystack\<close> on strings.\<close>

fun starts_with :: "string \<Rightarrow> string \<Rightarrow> bool" where
  "starts_with [] hay = True"
| "starts_with (n # ns) [] = False"
| "starts_with (n # ns) (h # hs) = (n = h \<and> starts_with ns hs)"

fun str_contains :: "string \<Rightarrow> string \<Rightarrow> bool" where
  "str_contains needle [] = (needle = [])"
| "str_contains needle (h # hs) = (starts_with needle (h # hs) \<or> str_contains needle hs)"

text \<open>Python's \<open>int(x)\<close> on a float: truncation towards zero.\<close>

definition py_int :: "real \<Rightarrow> int" where
  "py_int x = (if 0 \<le> x then \<lfloor>x\<rfloor> else \<lceil>x\<rceil>)"

section \<open>VQA score computation (train.py 20-25, trainer.py 259-264)\<close>

text \<open>
  \<open>torch.max(logits, 1)[1]\<close>: for every row the index of its maximal entry, the first
  one when several entries are maximal.  \<open>argmax_from best bi i xs\<close> scans \<open>xs\<close>, whose
  first element has index \<open>i\<close>, with the running maximum \<open>best\<close> found at index \<open>bi\<close>.
\<close>

fun argmax_from :: "real \<Rightarrow> nat \<Rightarrow> nat \<Rightarrow> vec \<Rightarrow> nat" where
  "argmax_from best bi i [] = bi"
| "argmax_from best bi i (x # xs) =
     (if best < x then argmax_from x i (Suc i) xs else argmax_from best bi (Suc i) xs)"

fun argmax :: "vec \<Rightarrow> nat" where
  "argmax [] = 0"
| "argmax (x # xs) = argmax_from x 0 1 xs"

text \<open>One row of \<open>one_hots\<close> after \<open>scatter_\<close>: zeros of the label row's width, 1 at \<open>k\<close>.\<close>

definition one_hot :: "nat \<Rightarrow> nat \<Rightarrow> vec" where
  "one_hot n k = map (\<lambda>j. if j = k then 1 else 0) [0..<n]"

definition mul_rows :: "vec \<Rightarrow> vec \<Rightarrow> vec" where
  "mul_rows xs ys = map (\<lambda>(x, y). x * y) (zip xs ys)"

text \<open>
  \<open>score_rows idx labels\<close> is \<open>one_hots * labels\<close> row by row: \<open>scatter_\<close> writes a 1 only
  into the rows that have an index, so label rows beyond the logits' rows meet a zero row.
\<close>

fun score_rows :: "nat list \<Rightarrow> matrix \<Rightarrow> matrix" where
  "score_rows idx [] = []"
| "score_rows [] (l # ls) = mul_rows (replicate (length l) 0) l # score_rows [] ls"
| "score_rows (k # ks) (l # ls) = mul_rows (one_hot (length l) k) l # score_rows ks ls"

text \<open>
  \<open>compute_score_with_logits\<close>.  The two failures are PyTorch's: \<open>torch.max\<close> over an
  empty class dimension, and \<open>scatter_\<close> with more index rows than \<open>one_hots\<close> has rows or
  with an index outside a row.  The result is the matrix \<open>one_hots * labels\<close>; the callers
  apply \<open>.sum()\<close> to it.
\<close>

definition compute_score_with_logits :: "matrix \<Rightarrow> matrix \<Rightarrow> exn + matrix" where
  "compute_score_with_logits logits labels =
     (if list_ex (\<lambda>r. r = []) logits
      then Inl (RuntimeError ''cannot perform reduction function max on tensor with no elements'')
      else
        let idx = map argmax logits in
        if length labels < length idx
           \<or> list_ex (\<lambda>(k, l). length l \<le> k) (zip idx labels)
        then Inl (RuntimeError ''scatter_: index out of bounds'')
        else Inr (score_rows idx labels))"

text \<open>\<open>.sum()\<close> of a matrix, and the per-example score: the sum of one row.\<close>

definition tensor_sum :: "matrix \<Rightarrow> real" where
  "tensor_sum m = sum_list (map sum_list m)"

definition same_shape :: "matrix \<Rightarrow> matrix \<Rightarrow> bool" where
  "same_shape xs ys = (length xs = length ys \<and> list_all (\<lambda>(x, y). length x = length y) (zip xs ys))"

definition per_example :: "matrix \<Rightarrow> vec" where
  "per_example m = map sum_list m"

section \<open>The trainer (trainer.py)\<close>

subsection \<open>State\<close>

text \<open>
  One entry of \<open>self.model.named_parameters()\<close>: the name, the \<open>requires_grad\<close> flag and
  \<open>p.grad\<close> (\<open>None\<close> until a backward pass reaches the parameter).  Parameter values
  themselves are not modelled: no function of the trainer reads them.
\<close>

record param =
  pname :: string
  requires_grad :: bool
  grad :: "vec option"

text \<open>
  The optimizer collaborator (Adamax, built in \<open>train\<close> over the parameters with
  \<open>requires_grad\<close>).  Its state is the learning rate of \<open>param_groups[0]\<close> and whatever
  \<open>step()\<close> has accumulated; the latter is a function of the calls made so far, so it is
  kept as the list of calls: the learning rate and the gradients each \<open>step()\<close> saw.
  \<open>zero_grad_calls\<close> counts the calls of \<open>zero_grad()\<close>.
\<close>

record optimizer_state =
  group_lr :: real
  step_history :: "(real \<times> vec option list) list"
  zero_grad_calls :: nat

text \<open>The three meters the commit path updates, each as the list of values passed to \<open>update\<close>.\<close>

record meters_state =
  gnorm :: "real list"
  clip :: "real list"
  oom :: "int list"

text \<open>The options the modelled code reads from \<open>args\<close>.\<close>

record args =
  lr :: real
  clip_norm :: real
  update_freq :: int
  batch_size :: int
  print_interval :: int
  testing :: bool
  model :: string

text \<open>
  A \<open>Trainer\<close> as \<open>train\<close> constructs it (with an optimizer).  \<open>buffered_stats\<close> is the
  \<open>defaultdict(lambda: [])\<close>: a missing key reads as the empty list.  \<open>printed\<close> collects
  what the code prints.
\<close>

record trainer =
  args :: args
  parameters :: "param list"
  optimizer :: optimizer_state
  meters :: meters_state
  buffered_stats :: "string \<Rightarrow> int list"
  flat_grads :: "vec option"
  num_updates_trainer :: nat
  printed :: "string list"

text \<open>
  A micro-batch \<open>[v, b, q, a, qt]\<close>.  Only the leading dimension of \<open>v\<close> and the two label
  matrices are read by the code; \<open>v\<close>, \<open>b\<close> and \<open>q\<close> go to the model.
\<close>

record sample =
  sample_v :: matrix
  sample_b :: matrix
  sample_q :: matrix
  sample_a :: matrix
  sample_qt :: matrix

text \<open>
  What lies outside the repository is an input of the step.  \<open>model_call\<close> is the outcome
  of \<open>self.model(...)\<close> together with the loss expression built from it by the criterion
  (trainer.py 137-158): an exception, or the loss and the two prediction matrices the
  scores are computed from.  \<open>loss_backward\<close> is the outcome of \<open>loss.backward()\<close>: an
  exception, or for every parameter the gradient it contributes.  \<open>utils_clip_grad_norm\<close>
  is \<open>utils.clip_grad_norm_\<close>, whose module is not among the sources: given the flat
  buffer and \<open>clip_norm\<close> it raises or returns the buffer as it leaves it and the norm.
\<close>

record model_out =
  loss_value :: real
  model_preds_combined :: matrix
  question_type_preds :: matrix

record step_env =
  model_call :: "exn + model_out"
  loss_backward :: "exn + vec option list"
  utils_clip_grad_norm :: "vec \<Rightarrow> real \<Rightarrow> exn + vec \<times> real"

subsection \<open>Exception tests\<close>

text \<open>\<open>except RuntimeError as e\<close> with \<open>'out of memory' in str(e)\<close>.\<close>

fun is_oom :: "exn \<Rightarrow> bool" where
  "is_oom (RuntimeError msg) = str_contains ''out of memory'' msg"
| "is_oom e = False"

text \<open>\<open>except OverflowError as e\<close>: the message when it matches.\<close>

fun overflow_msg :: "exn \<Rightarrow> string option" where
  "overflow_msg (OverflowError msg) = Some msg"
| "overflow_msg e = None"

subsection \<open>Optimizer calls\<close>

text \<open>
  \<open>zero_grad\<close> (trainer.py 238-239): the optimizer zeroes, in place, the gradient of each
  of its parameters that has one (\<open>Optimizer.zero_grad\<close> of the PyTorch 1.x releases the
  repository was written for); its parameters are those with \<open>requires_grad\<close>.
\<close>

definition zero_param :: "param \<Rightarrow> param" where
  "zero_param p = (if requires_grad p then p\<lparr>grad := map_option (map (\<lambda>x. 0)) (grad p)\<rparr> else p)"

definition zero_grad :: "trainer \<Rightarrow> trainer" where
  "zero_grad st =
     st\<lparr>parameters := map zero_param (parameters st),
        optimizer := (optimizer st)\<lparr>zero_grad_calls := Suc (zero_grad_calls (optimizer st))\<rparr>\<rparr>"

text \<open>\<open>self.optimizer.step()\<close>: one more entry of the history, the rate and the gradients seen.\<close>

definition optimizer_step :: "trainer \<Rightarrow> trainer" where
  "optimizer_step st =
     st\<lparr>optimizer := (optimizer st)\<lparr>step_history :=
          step_history (optimizer st)
            @ [(group_lr (optimizer st), map grad (filter requires_grad (parameters st)))]\<rparr>\<rparr>"

text \<open>\<open>_opt\<close> (trainer.py 229-233).\<close>

definition opt :: "trainer \<Rightarrow> trainer" where
  "opt st =
     (let st1 = optimizer_step st;
          st2 = zero_grad st1
      in st2\<lparr>num_updates_trainer := num_updates_trainer st2 + 1\<rparr>)"

definition clear_buffered_stats :: "trainer \<Rightarrow> trainer" where
  "clear_buffered_stats st = st\<lparr>buffered_stats := (\<lambda>k. [])\<rparr>"

subsection \<open>Gradient aggregator\<close>

text \<open>\<open>_get_grads\<close> (trainer.py 198-207): the first trainable parameter without a gradient raises.\<close>

fun get_grads :: "param list \<Rightarrow> exn + vec list" where
  "get_grads [] = Inr []"
| "get_grads (p # ps) =
     (if \<not> requires_grad p then get_grads ps
      else case grad p of
          None \<Rightarrow> Inl (RuntimeError (''Model parameter did not receive gradient: '' @ pname p
                     @ ''. Use the param in the forward pass or set requires_grad=False''))
        | Some g \<Rightarrow> (case get_grads ps of Inl e \<Rightarrow> Inl e | Inr gs \<Rightarrow> Inr (g # gs)))"

definition numel_total :: "vec list \<Rightarrow> nat" where
  "numel_total gs = sum_list (map length gs)"

text \<open>
  The copy loop of \<open>_get_flat_grads\<close> (trainer.py 214-218) on the buffer \<open>out\<close>, from
  \<open>offset\<close> on.  The slice \<open>out[offset:offset+numel]\<close> is cut at the end of the buffer.
  \<open>copy_\<close> needs the slice to have \<open>numel\<close> elements, except that a one-element source
  broadcasts, here only into an empty slice, where it writes nothing.  The buffer is
  written in place, so it is returned also when the loop raises.
\<close>

fun flat_copy :: "vec list \<Rightarrow> vec \<Rightarrow> nat \<Rightarrow> vec \<times> (exn + nat)" where
  "flat_copy [] out offset = (out, Inr offset)"
| "flat_copy (g # gs) out offset =
     (let numel = length g in
      if length (take numel (drop offset out)) = numel
      then flat_copy gs (take offset out @ g @ drop (offset + numel) out) (offset + numel)
      else if numel = 1 then flat_copy gs out (offset + numel)
      else (out, Inl (RuntimeError ''The size of tensor a must match the size of tensor b'')))"

text \<open>
  \<open>_get_flat_grads\<close> (trainer.py 209-219).  The first component is the buffer passed as
  \<open>out\<close> after the call (it is mutated in place; \<open>None\<close> when none was passed), the
  second the exception or the returned \<open>out[:offset]\<close>.  Without \<open>out\<close> the buffer is
  allocated through \<open>grads[0]\<close>, which raises when there is no gradient at all.
\<close>

definition get_flat_grads :: "trainer \<Rightarrow> vec option \<Rightarrow> vec option \<times> (exn + vec)" where
  "get_flat_grads st out =
     (case get_grads (parameters st) of
        Inl e \<Rightarrow> (out, Inl e)
      | Inr grads \<Rightarrow>
         (case out of
            None \<Rightarrow>
              (if grads = [] then (None, Inl (IndexError ''list index out of range''))
               else case flat_copy grads (replicate (numel_total grads) 0) 0 of
                   (buf, Inl e) \<Rightarrow> (None, Inl e)
                 | (buf, Inr offset) \<Rightarrow> (None, Inr (take offset buf)))
          | Some buf0 \<Rightarrow>
              (case flat_copy grads buf0 0 of
                   (buf, Inl e) \<Rightarrow> (Some buf, Inl e)
                 | (buf, Inr offset) \<Rightarrow> (Some buf, Inr (take offset buf)))))"

text \<open>
  The loop of \<open>_set_flat_grads\<close> (trainer.py 223-227).  \<open>grads\<close> holds the gradient
  tensors themselves, so the loop over it is the loop over the trainable parameters in
  \<open>named_parameters\<close> order, and \<open>g.copy_\<close> writes the parameter's gradient.
  \<open>view_as(g)\<close> raises when the slice has not \<open>numel\<close> elements; the gradients written
  before stay written.
\<close>

fun scatter_grads :: "param list \<Rightarrow> vec \<Rightarrow> nat \<Rightarrow> param list \<times> (exn + unit)" where
  "scatter_grads [] new_grads offset = ([], Inr ())"
| "scatter_grads (p # ps) new_grads offset =
     (if \<not> requires_grad p then
        (case scatter_grads ps new_grads offset of (ps', r) \<Rightarrow> (p # ps', r))
      else case grad p of
          None \<Rightarrow> (case scatter_grads ps new_grads offset of (ps', r) \<Rightarrow> (p # ps', r))
        | Some g \<Rightarrow>
            (let numel = length g;
                 piece = take numel (drop offset new_grads)
             in if length piece = numel
                then (case scatter_grads ps new_grads (offset + numel) of
                        (ps', r) \<Rightarrow> (p\<lparr>grad := Some piece\<rparr> # ps', r))
                else (p # ps, Inl (RuntimeError ''shape is invalid for input size''))))"

definition set_flat_grads :: "trainer \<Rightarrow> vec \<Rightarrow> trainer \<times> (exn + unit)" where
  "set_flat_grads st new_grads =
     (case get_grads (parameters st) of
        Inl e \<Rightarrow> (st, Inl e)
      | Inr grads \<Rightarrow>
         (case scatter_grads (parameters st) new_grads 0 of
            (ps, r) \<Rightarrow> (st\<lparr>parameters := ps\<rparr>, r)))"

text \<open>
  \<open>_all_reduce_and_rescale\<close> (trainer.py 185-196).  \<open>flat_grads\<close> and \<open>self._flat_grads\<close>
  are one tensor, so the in-place division and the clipping show in the trainer's state.
  \<open>train_step\<close> calls it with \<open>grad_denom \<ge> 1\<close>.
\<close>

definition all_reduce_and_rescale :: "trainer \<Rightarrow> step_env \<Rightarrow> int \<Rightarrow> trainer \<times> (exn + real)" where
  "all_reduce_and_rescale st env grad_denom =
     (case get_flat_grads st (flat_grads st) of
        (buf, Inl e) \<Rightarrow> (st\<lparr>flat_grads := buf\<rparr>, Inl e)
      | (buf, Inr flat) \<Rightarrow>
         (let flat1 = map (\<lambda>x. x / real_of_int grad_denom) flat in
          case utils_clip_grad_norm env flat1 (clip_norm (args st)) of
            Inl e \<Rightarrow> (st\<lparr>flat_grads := Some flat1\<rparr>, Inl e)
          | Inr (flat2, grad_norm) \<Rightarrow>
             (case set_flat_grads (st\<lparr>flat_grads := Some flat2\<rparr>) flat2 of
                (st', Inl e) \<Rightarrow> (st', Inl e)
              | (st', Inr u) \<Rightarrow> (st', Inr grad_norm))))"

text \<open>
  Modelled from the spec: the global L2 norm of a flat buffer (section 4.2, step 4),
  which \<open>utils.clip_grad_norm_\<close> computes; module \<open>utils\<close> is missing from the sources.
\<close>

definition l2_norm :: "vec \<Rightarrow> real" where
  "l2_norm xs = sqrt (sum_list (map (\<lambda>x. x * x) xs))"

text \<open>
  Modelled from the spec: \<open>utils.clip_grad_norm_\<close> (module \<open>utils\<close> is missing from the
  sources).  Section 4.2, step 4 and the sentence after step 5: compute the global L2
  norm of the flat buffer; if the norm exceeds \<open>max_norm\<close>, scale all elements by
  \<open>max_norm / norm\<close>; return the pre-clip norm.  It does not raise.
\<close>

definition clip_grad_norm_spec :: "vec \<Rightarrow> real \<Rightarrow> exn + vec \<times> real" where
  "clip_grad_norm_spec tensor max_norm =
     (let grad_norm = l2_norm tensor in
      if grad_norm > max_norm
      then Inr (map (\<lambda>x. x * (max_norm / grad_norm)) tensor, grad_norm)
      else Inr (tensor, grad_norm))"

subsection \<open>Step executor\<close>

text \<open>
  The body of the \<open>try\<close> in \<open>_forward\<close> (trainer.py 130-160): the loss, \<open>batch_score\<close> and
  \<open>batch_question_type_score\<close>.  \<open>final_preds\<close> is assigned only in the MILQT branch; with
  any other model name line 160 reads an unassigned local.
\<close>

definition forward_body :: "args \<Rightarrow> sample \<Rightarrow> exn + model_out \<Rightarrow> exn + real option \<times> real \<times> real option" where
  "forward_body ar smp mc =
     (if model ar = ''MILQT'' then
        (case mc of
           Inl e \<Rightarrow> Inl e
         | Inr out \<Rightarrow>
            (case compute_score_with_logits (question_type_preds out) (sample_qt smp) of
               Inl e \<Rightarrow> Inl e
             | Inr qt_scores \<Rightarrow>
                (case compute_score_with_logits (model_preds_combined out) (sample_a smp) of
                   Inl e \<Rightarrow> Inl e
                 | Inr scores \<Rightarrow>
                     Inr (Some (loss_value out), tensor_sum scores, Some (tensor_sum qt_scores)))))
      else Inl (UnboundLocalError ''local variable final_preds referenced before assignment''))"

text \<open>
  \<open>_forward\<close> (trainer.py 116-168) returns
  \<open>(loss, len(sample[0]), oom, batch_score, batch_question_type_score)\<close>.
  With no sample the \<open>try\<close> is skipped and \<open>len(sample[0])\<close> raises.
\<close>

definition forward :: "trainer \<Rightarrow> sample option \<Rightarrow> step_env \<Rightarrow> bool
    \<Rightarrow> trainer \<times> (exn + real option \<times> nat \<times> int \<times> real \<times> real option)" where
  "forward st sample env eval =
     (case sample of
        None \<Rightarrow> (st, Inl (TypeError ''NoneType object is not subscriptable''))
      | Some smp \<Rightarrow>
         (case forward_body (args st) smp (model_call env) of
            Inr (loss, batch_score, batch_question_type_score) \<Rightarrow>
              (st, Inr (loss, length (sample_v smp), 0, batch_score, batch_question_type_score))
          | Inl e \<Rightarrow>
              if \<not> eval \<and> is_oom e
              then (st\<lparr>printed := printed st @ [''| WARNING: ran out of memory, skipping batch'']\<rparr>,
                    Inr (None, length (sample_v smp), 1, 0, None))
              else (st, Inl e)))"

text \<open>
  \<open>loss.backward()\<close> adds each parameter's contribution to its \<open>grad\<close>, creating it
  where there was none.
\<close>

definition accumulate :: "vec option \<Rightarrow> vec option \<Rightarrow> vec option" where
  "accumulate g d =
     (case d of
        None \<Rightarrow> g
      | Some dv \<Rightarrow> (case g of None \<Rightarrow> Some dv | Some gv \<Rightarrow> Some (map (\<lambda>(x, y). x + y) (zip gv dv))))"

fun accumulate_grads :: "param list \<Rightarrow> vec option list \<Rightarrow> param list" where
  "accumulate_grads [] ds = []"
| "accumulate_grads (p # ps) [] = p # ps"
| "accumulate_grads (p # ps) (d # ds) =
     (if requires_grad p then p\<lparr>grad := accumulate (grad p) d\<rparr> else p) # accumulate_grads ps ds"

text \<open>\<open>_backward\<close> (trainer.py 170-183) returns the flag \<open>oom\<close>.\<close>

definition backward :: "trainer \<Rightarrow> real option \<Rightarrow> step_env \<Rightarrow> trainer \<times> (exn + int)" where
  "backward st loss env =
     (case loss of
        None \<Rightarrow> (st, Inr 0)
      | Some l \<Rightarrow>
         (case loss_backward env of
            Inr ds \<Rightarrow> (st\<lparr>parameters := accumulate_grads (parameters st) ds\<rparr>, Inr 0)
          | Inl e \<Rightarrow>
              if is_oom e
              then (zero_grad (st\<lparr>printed := printed st @ [''| WARNING: ran out of memory, skipping batch'']\<rparr>),
                    Inr 1)
              else (st, Inl e)))"

text \<open>\<open>_prepare_sample\<close> (trainer.py 248-251); \<open>None\<close> stands for \<open>None\<close> and for the empty list.\<close>

definition prepare_sample :: "sample option \<Rightarrow> sample option" where
  "prepare_sample sample = (case sample of None \<Rightarrow> None | Some smp \<Rightarrow> Some smp)"

text \<open>Lines 77-79 of \<open>train_step\<close>: one entry per call in each buffered list.\<close>

definition buffer_stats :: "trainer \<Rightarrow> int \<Rightarrow> int \<Rightarrow> trainer" where
  "buffer_stats st oom_fwd oom_bwd =
     st\<lparr>buffered_stats := (buffered_stats st)
          (''sample_sizes'' := buffered_stats st ''sample_sizes'' @ [1],
           ''ooms_fwd'' := buffered_stats st ''ooms_fwd'' @ [oom_fwd],
           ''ooms_bwd'' := buffered_stats st ''ooms_bwd'' @ [oom_bwd])\<rparr>"

text \<open>
  The branch \<open>if update_params\<close> of \<open>train_step\<close> (trainer.py 82-110), up to and including
  \<open>clear_buffered_stats\<close>; the result is \<open>grad_norm\<close>.  Only \<open>OverflowError\<close> is caught; any
  other exception leaves the function before the buffer is cleared.
\<close>

definition update_parameters :: "trainer \<Rightarrow> step_env \<Rightarrow> trainer \<times> (exn + real)" where
  "update_parameters st env =
     (let sample_sizes = buffered_stats st ''sample_sizes'';
          ooms_fwd = sum_list (buffered_stats st ''ooms_fwd'');
          ooms_bwd = sum_list (buffered_stats st ''ooms_bwd'');
          grad_denom = sum_list sample_sizes
      in case all_reduce_and_rescale st env grad_denom of
           (st1, Inr grad_norm) \<Rightarrow>
             (let st2 = opt st1;
                  st3 = st2\<lparr>meters := (meters st2)
                          \<lparr>gnorm := gnorm (meters st2) @ [grad_norm],
                           clip := clip (meters st2) @ [if grad_norm > clip_norm (args st2) then 1 else 0],
                           oom := oom (meters st2) @ [ooms_fwd + ooms_bwd]\<rparr>\<rparr>
              in (clear_buffered_stats st3, Inr grad_norm))
         | (st1, Inl e) \<Rightarrow>
             (case overflow_msg e of
                Some msg \<Rightarrow>
                  (let st2 = zero_grad st1;
                       st3 = st2\<lparr>printed := printed st2 @ [''| WARNING: overflow detected, '' @ msg]\<rparr>
                   in (clear_buffered_stats st3, Inr 0))
              | None \<Rightarrow> (st1, Inl e)))"

text \<open>
  Lines 71-79 of \<open>train_step\<close>: the forward pass, the backward pass and the buffering
  of the step's statistics.  The result is \<open>(loss, batch_score,
  batch_question_type_score)\<close>.
\<close>

definition forward_backward :: "trainer \<Rightarrow> sample option \<Rightarrow> step_env
    \<Rightarrow> trainer \<times> (exn + real option \<times> real \<times> real option)" where
  "forward_backward st sample env =
     (case forward st (prepare_sample sample) env False of
        (st1, Inl e) \<Rightarrow> (st1, Inl e)
      | (st1, Inr (loss, sample_size, oom_fwd, batch_score, batch_question_type_score)) \<Rightarrow>
         (case backward st1 loss env of
            (st2, Inl e) \<Rightarrow> (st2, Inl e)
          | (st2, Inr oom_bwd) \<Rightarrow>
              (buffer_stats st2 oom_fwd oom_bwd, Inr (loss, batch_score, batch_question_type_score))))"

text \<open>
  \<open>train_step\<close> (trainer.py 62-114): \<open>None\<close> while buffering, otherwise
  \<open>(loss, grad_norm, batch_score, batch_question_type_score)\<close>.
\<close>

definition train_step :: "trainer \<Rightarrow> sample option \<Rightarrow> step_env \<Rightarrow> bool
    \<Rightarrow> trainer \<times> (exn + (real option \<times> real \<times> real \<times> real option) option)" where
  "train_step st sample env update_params =
     (case forward_backward st sample env of
        (st3, Inl e) \<Rightarrow> (st3, Inl e)
      | (st3, Inr (loss, batch_score, batch_question_type_score)) \<Rightarrow>
          if update_params then
            (case update_parameters st3 env of
               (st4, Inl e) \<Rightarrow> (st4, Inl e)
             | (st4, Inr grad_norm) \<Rightarrow>
                 (st4, Inr (Some (loss, grad_norm, batch_score, batch_question_type_score))))
          else (st3, Inr None))"

text \<open>
  The calls the driver makes between two commits: \<open>train_step\<close> with
  \<open>update_params=False\<close> on one micro-batch after the other; \<open>None\<close> when one raises.
\<close>

fun buffer_steps :: "trainer \<Rightarrow> (sample option \<times> step_env) list \<Rightarrow> trainer option" where
  "buffer_steps st [] = Some st"
| "buffer_steps st ((sample, env) # rest) =
     (case train_step st sample env False of
        (st', Inl e) \<Rightarrow> None
      | (st', Inr r) \<Rightarrow> buffer_steps st' rest)"

section \<open>The epoch driver (train.py)\<close>

subsection \<open>Learning-rate policy\<close>

text \<open>\<open>range(start, stop, step)\<close> for a positive step.\<close>

definition py_range :: "nat \<Rightarrow> nat \<Rightarrow> nat \<Rightarrow> nat list" where
  "py_range start stop step = map (\<lambda>k. start + k * step) [0..<(stop - start + step - 1) div step]"

definition lr_decay_step :: nat where
  "lr_decay_step = 2"

definition lr_decay_rate :: real where
  "lr_decay_rate = 0.25"

definition lr_decay_epochs :: "nat list" where
  "lr_decay_epochs = py_range 10 20 lr_decay_step"

definition gradual_warmup_steps :: "real \<Rightarrow> real list" where
  "gradual_warmup_steps lr_default = [0.5 * lr_default, 1.0 * lr_default, 1.5 * lr_default, 2.0 * lr_default]"

text \<open>
  Lines 72-79 of \<open>train\<close>: the value of \<open>param_groups[0]['lr']\<close> after the branch, from its
  value \<open>cur\<close> before.
\<close>

definition epoch_lr :: "real \<Rightarrow> nat \<Rightarrow> real \<Rightarrow> real" where
  "epoch_lr lr_default epoch cur =
     (if epoch < length (gradual_warmup_steps lr_default) then gradual_warmup_steps lr_default ! epoch
      else if epoch \<in> set lr_decay_epochs then cur * lr_decay_rate
      else cur)"

definition set_epoch_lr :: "nat \<Rightarrow> trainer \<Rightarrow> trainer" where
  "set_epoch_lr epoch st =
     st\<lparr>optimizer := (optimizer st)\<lparr>group_lr := epoch_lr (lr (args st)) epoch (group_lr (optimizer st))\<rparr>\<rparr>"

subsection \<open>The loop over micro-batches\<close>

text \<open>The accumulators of one epoch (train.py 63-68).\<close>

record epoch_totals =
  total_loss :: real
  train_score :: real
  train_question_type_score :: real
  total_norm :: real
  count_norm :: nat
  num_updates :: nat

definition epoch_start :: epoch_totals where
  "epoch_start = \<lparr>total_loss = 0, train_score = 0, train_question_type_score = 0,
                   total_norm = 0, count_norm = 0, num_updates = 0\<rparr>"

text \<open>Line 71: \<open>num_batches = int(N/args.batch_size + 1)\<close>, a true division.\<close>

definition num_batches_of :: "nat \<Rightarrow> int \<Rightarrow> exn + int" where
  "num_batches_of N bsz =
     (if bsz = 0 then Inl (ZeroDivisionError ''division by zero'')
      else Inr (py_int (real N / real_of_int bsz + 1)))"

text \<open>
  Line 90 decides between buffering and committing: \<open>update_params_at\<close> is the argument
  \<open>update_params\<close> that micro-batch \<open>i\<close> is passed.  The modulo is evaluated only when the
  first conjunct holds.
\<close>

definition update_params_at :: "int \<Rightarrow> int \<Rightarrow> nat \<Rightarrow> exn + bool" where
  "update_params_at num_batches upd_freq i =
     (if int i < num_batches - 1 then
        (if upd_freq = 0 then Inl (ZeroDivisionError ''integer division or modulo by zero'')
         else Inr (\<not> (int i + 1) mod upd_freq > 0))
      else Inr True)"

text \<open>
  Line 101: \<open>num_updates % int(args.print_interval / update_freq) == 0\<close>; the true
  division and the modulo both raise on a zero divisor.
\<close>

definition print_due :: "args \<Rightarrow> nat \<Rightarrow> exn + bool" where
  "print_due ar n =
     (if update_freq ar = 0 then Inl (ZeroDivisionError ''division by zero'')
      else
        let k = py_int (real_of_int (print_interval ar) / real_of_int (update_freq ar)) in
        if k = 0 then Inl (ZeroDivisionError ''integer division or modulo by zero'')
        else Inr (int n mod k = 0))"

text \<open>
  Lines 93-104, after a committing \<open>train_step\<close> has returned: the accumulators, then the
  progress line.  \<open>loss.item()\<close> needs a loss; the arguments of the progress line divide
  by \<open>num_batches\<close> (its formatting and \<open>utils.time_since\<close> are outside the sources and
  taken not to raise).  The result says whether the loop breaks.
\<close>

definition after_commit :: "args \<Rightarrow> int \<Rightarrow> trainer \<Rightarrow> epoch_totals
    \<Rightarrow> real option \<times> real \<times> real \<times> real option \<Rightarrow> (trainer \<times> epoch_totals) \<times> (exn + bool)" where
  "after_commit ar num_batches st tot res =
     (case res of (loss, grad_norm, batch_score, batch_question_type_score) \<Rightarrow>
        let tot1 = tot\<lparr>total_norm := total_norm tot + grad_norm, count_norm := count_norm tot + 1\<rparr> in
        case loss of
          None \<Rightarrow> ((st, tot1), Inl (AttributeError ''NoneType object has no attribute item''))
        | Some l \<Rightarrow>
           (let tot2 = tot1\<lparr>total_loss := total_loss tot1 + l, train_score := train_score tot1 + batch_score\<rparr> in
            case batch_question_type_score of
              None \<Rightarrow> ((st, tot2), Inl (TypeError ''unsupported operand type for +=: NoneType''))
            | Some qs \<Rightarrow>
               (let tot3 = tot2\<lparr>train_question_type_score := train_question_type_score tot2 + qs,
                                 num_updates := num_updates tot2 + 1\<rparr> in
                case print_due ar (num_updates tot3) of
                  Inl e \<Rightarrow> ((st, tot3), Inl e)
                | Inr False \<Rightarrow> ((st, tot3), Inr False)
                | Inr True \<Rightarrow>
                    if num_batches = 0 then ((st, tot3), Inl (ZeroDivisionError ''division by zero''))
                    else ((st\<lparr>printed := printed st @ [''Iter: ...'']\<rparr>, tot3), Inr (testing ar)))))"

text \<open>One iteration of the loop (train.py 82-104) for micro-batch \<open>i\<close>.\<close>

definition batch_step :: "args \<Rightarrow> int \<Rightarrow> nat \<Rightarrow> sample \<Rightarrow> step_env \<Rightarrow> trainer \<Rightarrow> epoch_totals
    \<Rightarrow> (trainer \<times> epoch_totals) \<times> (exn + bool)" where
  "batch_step ar num_batches i smp env st tot =
     (case update_params_at num_batches (update_freq ar) i of
        Inl e \<Rightarrow> ((st, tot), Inl e)
      | Inr False \<Rightarrow>
         (case train_step st (Some smp) env False of
            (st', Inl e) \<Rightarrow> ((st', tot), Inl e)
          | (st', Inr r) \<Rightarrow> ((st', tot), Inr False))
      | Inr True \<Rightarrow>
         (case train_step st (Some smp) env True of
            (st', Inl e) \<Rightarrow> ((st', tot), Inl e)
          | (st', Inr None) \<Rightarrow> ((st', tot), Inl (TypeError ''cannot unpack non-iterable NoneType object''))
          | (st', Inr (Some res)) \<Rightarrow> after_commit ar num_batches st' tot res))"

fun train_loop :: "args \<Rightarrow> int \<Rightarrow> nat \<Rightarrow> (sample \<times> step_env) list \<Rightarrow> trainer \<Rightarrow> epoch_totals
    \<Rightarrow> (trainer \<times> epoch_totals) \<times> (exn + unit)" where
  "train_loop ar num_batches i [] st tot = ((st, tot), Inr ())"
| "train_loop ar num_batches i ((smp, env) # rest) st tot =
     (case batch_step ar num_batches i smp env st tot of
        (s, Inl e) \<Rightarrow> (s, Inl e)
      | ((st', tot'), Inr True) \<Rightarrow> ((st', tot'), Inr ())
      | ((st', tot'), Inr False) \<Rightarrow> train_loop ar num_batches (Suc i) rest st' tot')"

subsection \<open>Evaluation\<close>

text \<open>\<open>(labels.max(1)[0]).sum()\<close>: the sum of the row maxima; an empty row has no maximum.\<close>

fun row_max :: "vec \<Rightarrow> real" where
  "row_max [] = 0"
| "row_max (x # xs) = fold max xs x"

definition max_rows_sum :: "matrix \<Rightarrow> exn + real" where
  "max_rows_sum m =
     (if list_ex (\<lambda>r. r = []) m
      then Inl (RuntimeError ''cannot perform reduction function max on tensor with no elements'')
      else Inr (sum_list (map row_max m)))"

text \<open>The accumulators of \<open>evaluate\<close> (train.py 136-140).\<close>

record eval_totals =
  score :: real
  question_type_score :: real
  upper_bound :: real
  question_type_upper_bound :: real
  num_data :: nat

text \<open>
  The body of the loop of \<open>evaluate\<close> (train.py 143-159) for one batch and the outcome of
  the model on it.  \<open>final_preds\<close> stays \<open>None\<close> unless the model name is MILQT, and
  \<open>torch.max(None, 1)\<close> is a type error.
\<close>

definition evaluate_batch :: "string \<Rightarrow> sample \<Rightarrow> exn + model_out \<Rightarrow> eval_totals \<Rightarrow> exn + eval_totals" where
  "evaluate_batch model_name smp mc tot =
     (if model_name = ''MILQT'' then
        (case mc of
           Inl e \<Rightarrow> Inl e
         | Inr out \<Rightarrow>
            (case compute_score_with_logits (model_preds_combined out) (sample_a smp) of
               Inl e \<Rightarrow> Inl e
             | Inr scores \<Rightarrow>
                (case compute_score_with_logits (question_type_preds out) (sample_qt smp) of
                   Inl e \<Rightarrow> Inl e
                 | Inr qt_scores \<Rightarrow>
                    (case max_rows_sum (sample_a smp) of
                       Inl e \<Rightarrow> Inl e
                     | Inr ub \<Rightarrow>
                        (case max_rows_sum (sample_qt smp) of
                           Inl e \<Rightarrow> Inl e
                         | Inr qub \<Rightarrow>
                             Inr (tot\<lparr>score := score tot + tensor_sum scores,
                                      question_type_score := question_type_score tot + tensor_sum qt_scores,
                                      upper_bound := upper_bound tot + ub,
                                      question_type_upper_bound := question_type_upper_bound tot + qub,
                                      num_data := num_data tot + length (model_preds_combined out)\<rparr>))))))
      else Inl (TypeError ''max(): argument input must be Tensor, not NoneType''))"

fun evaluate_loop :: "string \<Rightarrow> (sample \<times> (exn + model_out)) list \<Rightarrow> eval_totals \<Rightarrow> exn + eval_totals" where
  "evaluate_loop model_name [] tot = Inr tot"
| "evaluate_loop model_name ((smp, mc) # rest) tot =
     (case evaluate_batch model_name smp mc tot of
        Inl e \<Rightarrow> Inl e
      | Inr tot' \<Rightarrow> evaluate_loop model_name rest tot')"

text \<open>
  \<open>evaluate\<close> (train.py 134-166) over a loader that yields \<open>data\<close> from a dataset of \<open>n\<close>
  examples; the result is \<open>(score, upper_bound, question_type_score,
  question_type_upper_bound)\<close>.  When the loader yields nothing the accumulators are still
  the integer 0 and line 161 divides integers.  (With batches and \<open>n = 0\<close>, which no loader
  produces, PyTorch divides to inf or nan where the model has \<open>x / 0 = 0\<close>.)
\<close>

definition evaluate :: "string \<Rightarrow> nat \<Rightarrow> (sample \<times> (exn + model_out)) list
    \<Rightarrow> exn + real \<times> real \<times> real \<times> real" where
  "evaluate model_name n data =
     (case evaluate_loop model_name data
             \<lparr>score = 0, question_type_score = 0, upper_bound = 0,
              question_type_upper_bound = 0, num_data = 0\<rparr> of
        Inl e \<Rightarrow> Inl e
      | Inr tot \<Rightarrow>
          if data = [] \<and> n = 0 then Inl (ZeroDivisionError ''division by zero'')
          else Inr (score tot / real n, upper_bound tot / real n,
                    question_type_score tot / real n, question_type_upper_bound tot / real n))"

subsection \<open>Epochs\<close>

text \<open>
  What one epoch reads from outside: the size of the training dataset, the micro-batches
  the training loader yields with the environment of each step, and, when there is an
  evaluation loader, the size of its dataset and its batches with the model's outcome.
\<close>

record epoch_input =
  dataset_len :: nat
  batches :: "(sample \<times> step_env) list"
  eval_data :: "(nat \<times> (sample \<times> (exn + model_out)) list) option"

text \<open>
  One pass of the loop over epochs (train.py 63-115): the result is \<open>total_loss\<close>,
  \<open>train_score\<close>, \<open>train_question_type_score\<close> after lines 106-108 and the evaluation
  result.  Line 106 divides by \<open>num_updates\<close>.  Logging and checkpoint persistence
  (lines 117-131) are left out.
\<close>

definition train_epoch :: "nat \<Rightarrow> epoch_input \<Rightarrow> trainer
    \<Rightarrow> trainer \<times> (exn + real \<times> real \<times> real \<times> (real \<times> real \<times> real \<times> real) option)" where
  "train_epoch epoch inp st =
     (let ar = args st in
      case num_batches_of (dataset_len inp) (batch_size ar) of
        Inl e \<Rightarrow> (st, Inl e)
      | Inr num_batches \<Rightarrow>
         (case train_loop ar num_batches 0 (batches inp) (set_epoch_lr epoch st) epoch_start of
            ((st', tot), Inl e) \<Rightarrow> (st', Inl e)
          | ((st', tot), Inr u) \<Rightarrow>
              if num_updates tot = 0 then (st', Inl (ZeroDivisionError ''division by zero''))
              else
                (let tl = total_loss tot / real (num_updates tot);
                     ts = 100 * train_score tot / (real (num_updates tot) * real_of_int (batch_size ar));
                     tq = 100 * train_question_type_score tot
                            / (real (num_updates tot) * real_of_int (batch_size ar))
                 in case eval_data inp of
                      None \<Rightarrow> (st', Inr (tl, ts, tq, None))
                    | Some (n, data) \<Rightarrow>
                       (case evaluate (model ar) n data of
                          Inl e \<Rightarrow> (st', Inl e)
                        | Inr r \<Rightarrow> (st', Inr (tl, ts, tq, Some r))))))"

text \<open>\<open>for epoch in range(s_epoch, num_epochs)\<close> (train.py 62): an exception ends the run.\<close>

fun train_epochs :: "nat list \<Rightarrow> (nat \<Rightarrow> epoch_input) \<Rightarrow> trainer \<Rightarrow> trainer \<times> (exn + unit)" where
  "train_epochs [] inputs st = (st, Inr ())"
| "train_epochs (epoch # epochs) inputs st =
     (case train_epoch epoch (inputs epoch) st of
        (st', Inl e) \<Rightarrow> (st', Inl e)
      | (st', Inr r) \<Rightarrow> train_epochs epochs inputs st')"

definition train :: "nat \<Rightarrow> nat \<Rightarrow> (nat \<Rightarrow> epoch_input) \<Rightarrow> trainer \<Rightarrow> trainer \<times> (exn + unit)" where
  "train s_epoch num_epochs inputs st = train_epochs [s_epoch..<num_epochs] inputs st"

text \<open>
  The learning rate in force during epoch \<open>e\<close> of a run that starts at \<open>s_epoch\<close> with the
  optimizer's rate \<open>lr0\<close>: lines 72-79 applied at every epoch up to and including \<open>e\<close>.
\<close>

definition lr_during :: "real \<Rightarrow> real \<Rightarrow> nat \<Rightarrow> nat \<Rightarrow> real" where
  "lr_during lr_default lr0 s_epoch e = fold (epoch_lr lr_default) [s_epoch..<Suc e] lr0"

abbreviation current_lr :: "trainer \<Rightarrow> real" where
  "current_lr st \<equiv> group_lr (optimizer st)"

subsection \<open>Construction and concrete inputs\<close>

text \<open>
  \<open>Trainer.__init__\<close> (trainer.py 15-48) over the model's parameters and the optimizer
  handed in: empty meters, empty buffered stats, no flat buffer, no update.
\<close>

definition new_trainer :: "args \<Rightarrow> param list \<Rightarrow> optimizer_state \<Rightarrow> trainer" where
  "new_trainer ar ps optim =
     \<lparr>args = ar, parameters = ps, optimizer = optim,
      meters = \<lparr>gnorm = [], clip = [], oom = []\<rparr>,
      buffered_stats = (\<lambda>k. []), flat_grads = None, num_updates_trainer = 0, printed = []\<rparr>"

text \<open>Line 42 of \<open>train\<close>: a fresh Adamax with the base learning rate.\<close>

definition new_optimizer :: "args \<Rightarrow> optimizer_state" where
  "new_optimizer ar = \<lparr>group_lr = lr ar, step_history = [], zero_grad_calls = 0\<rparr>"

text \<open>
  A small configuration used to run the definitions: one trainable two-element
  parameter and one frozen parameter, one example per micro-batch with two answer
  classes and two question types.
\<close>

definition demo_args :: "int \<Rightarrow> int \<Rightarrow> int \<Rightarrow> string \<Rightarrow> args" where
  "demo_args bsz upd_freq print_int model_name =
     \<lparr>lr = 0.001, clip_norm = 0.25, update_freq = upd_freq, batch_size = bsz,
      print_interval = print_int, testing = False, model = model_name\<rparr>"

definition demo_params :: "vec option \<Rightarrow> param list" where
  "demo_params g =
     [\<lparr>pname = ''w'', requires_grad = True, grad = g\<rparr>,
      \<lparr>pname = ''frozen'', requires_grad = False, grad = None\<rparr>]"

definition demo_trainer :: "args \<Rightarrow> vec option \<Rightarrow> trainer" where
  "demo_trainer ar g = new_trainer ar (demo_params g) (new_optimizer ar)"

definition demo_sample :: sample where
  "demo_sample = \<lparr>sample_v = [[1]], sample_b = [[0]], sample_q = [[0]],
                   sample_a = [[1, 0]], sample_qt = [[0, 1]]\<rparr>"

definition demo_out :: model_out where
  "demo_out = \<lparr>loss_value = 1, model_preds_combined = [[0.9, 0.1]], question_type_preds = [[0.2, 0.8]]\<rparr>"

text \<open>A step that goes through, and one whose forward pass runs out of memory.\<close>

definition demo_env :: step_env where
  "demo_env = \<lparr>model_call = Inr demo_out, loss_backward = Inr [Some [3, 4], None],
                utils_clip_grad_norm = clip_grad_norm_spec\<rparr>"

definition oom_env :: step_env where
  "oom_env = demo_env\<lparr>model_call := Inl (RuntimeError ''CUDA out of memory'')\<rparr>"

definition demo_epoch :: "nat \<Rightarrow> nat \<Rightarrow> epoch_input" where
  "demo_epoch n len = \<lparr>dataset_len = n, batches = replicate len (demo_sample, demo_env), eval_data = None\<rparr>"

text \<open>A commit whose clipping raises, and a backward pass that does not reach the parameter.\<close>

definition overflow_env :: step_env where
  "overflow_env = demo_env\<lparr>utils_clip_grad_norm := (\<lambda>t m. Inl (OverflowError ''norm is inf''))\<rparr>"

definition unused_env :: step_env where
  "unused_env = demo_env\<lparr>loss_backward := Inr [None, None]\<rparr>"

text \<open>Every trainable parameter that has a gradient has an all-zero one.\<close>

definition grads_zeroed :: "param list \<Rightarrow> bool" where
  "grads_zeroed ps =
     list_all (\<lambda>p. \<not> requires_grad p
                   \<or> (case grad p of None \<Rightarrow> True | Some g \<Rightarrow> list_all (\<lambda>x. x = 0) g)) ps"

section \<open>Score computation\<close>

lemma argmax_from_bound: "bi < i \<Longrightarrow> argmax_from best bi i xs < i + length xs"
proof (induction xs arbitrary: best bi i)
  case Nil
  then show ?case by simp
next
  case (Cons x xs)
  have a: "argmax_from x i (Suc i) xs < Suc i + length xs"
    by (rule Cons.IH) simp
  have b: "argmax_from best bi (Suc i) xs < Suc i + length xs"
    by (rule Cons.IH) (use Cons.prems in simp)
  show ?case using a b by simp
qed

lemma argmax_less: "xs \<noteq> [] \<Longrightarrow> argmax xs < length xs"
  using argmax_from_bound [of 0 1] by (cases xs) auto

lemma mul_one_hot:
  "mul_rows (one_hot (length l) k) l = map (\<lambda>j. if j = k then l ! j else 0) [0..<length l]"
  by (rule nth_equalityI) (simp_all add: mul_rows_def one_hot_def)

lemma one_hot_row_sum:
  assumes "k < length l"
  shows "sum_list (mul_rows (one_hot (length l) k) l) = l ! k"
proof -
  have "sum_list (mul_rows (one_hot (length l) k) l) = (\<Sum>j = 0..<length l. if j = k then l ! j else 0)"
    by (simp add: mul_one_hot interv_sum_list_conv_sum_set_nat)
  also have "\<dots> = l ! k" using assms by simp
  finally show ?thesis .
qed

lemma score_rows_per_example:
  assumes "length logits = length labels"
    and "list_all (\<lambda>(lg, lb). lg \<noteq> [] \<and> length lg = length lb) (zip logits labels)"
  shows "per_example (score_rows (map argmax logits) labels)
           = map (\<lambda>(lg, lb). lb ! argmax lg) (zip logits labels)"
  using assms
proof (induction logits labels rule: list_induct2)
  case Nil
  then show ?case by (simp add: per_example_def)
next
  case (Cons lg lgs lb lbs)
  from Cons.prems have "argmax lg < length lb" using argmax_less [of lg] by simp
  then have "sum_list (mul_rows (one_hot (length lb) (argmax lg)) lb) = lb ! argmax lg"
    by (rule one_hot_row_sum)
  with Cons show ?case by (simp add: per_example_def)
qed

lemma length_score_rows: "length (score_rows ks ls) = length ls"
  by (induction ks ls rule: score_rows.induct) auto

lemma no_scatter_error:
  assumes "length logits = length labels"
    and "list_all (\<lambda>(lg, lb). lg \<noteq> [] \<and> length lg = length lb) (zip logits labels)"
  shows "\<not> list_ex (\<lambda>(k, l). length l \<le> k) (zip (map argmax logits) labels)"
  using assms
proof (induction logits labels rule: list_induct2)
  case Nil
  then show ?case by simp
next
  case (Cons lg lgs lb lbs)
  from Cons.prems have "argmax lg < length lb" using argmax_less [of lg] by simp
  with Cons show ?case by simp
qed

lemma same_shape_zip:
  assumes "same_shape logits labels" "list_all (\<lambda>r. r \<noteq> []) logits"
  shows "list_all (\<lambda>(lg, lb). lg \<noteq> [] \<and> length lg = length lb) (zip logits labels)"
  using assms unfolding same_shape_def list_all_iff by (auto dest: set_zip_leftD)

lemma score_general:
  assumes "same_shape logits labels" and "list_all (\<lambda>r. r \<noteq> []) logits"
  shows "\<exists>scores. compute_score_with_logits logits labels = Inr scores
           \<and> length scores = length labels
           \<and> per_example scores = map (\<lambda>(lg, lb). lb ! argmax lg) (zip logits labels)
           \<and> (list_all (\<lambda>(lg, lb). lb ! argmax lg = 0 \<or> lb ! argmax lg = 1) (zip logits labels)
                \<longrightarrow> per_example scores
                      = map (\<lambda>(lg, lb). if lb ! argmax lg \<noteq> 0 then 1 else 0) (zip logits labels))"
proof -
  have len: "length logits = length labels"
    using assms(1) by (simp add: same_shape_def)
  have z: "list_all (\<lambda>(lg, lb). lg \<noteq> [] \<and> length lg = length lb) (zip logits labels)"
    using assms by (rule same_shape_zip)
  have ne: "\<not> list_ex (\<lambda>r. r = []) logits"
    using assms(2) by (simp add: list_all_iff list_ex_iff)
  have run: "compute_score_with_logits logits labels = Inr (score_rows (map argmax logits) labels)"
    using ne len no_scatter_error [OF len z] by (simp add: compute_score_with_logits_def)
  have pe: "per_example (score_rows (map argmax logits) labels)
              = map (\<lambda>(lg, lb). lb ! argmax lg) (zip logits labels)"
    using len z by (rule score_rows_per_example)
  have bin: "map (\<lambda>(lg, lb). lb ! argmax lg) (zip logits labels)
               = map (\<lambda>(lg, lb). if lb ! argmax lg \<noteq> 0 then 1 else 0) (zip logits labels)"
    if "list_all (\<lambda>(lg, lb). lb ! argmax lg = 0 \<or> lb ! argmax lg = 1) (zip logits labels)"
    using that by (auto simp: list_all_iff)
  show ?thesis using run pe bin by (simp add: length_score_rows)
qed

lemma score_examples:
  "compute_score_with_logits [[0.9, 0.1], [0.2, 0.8]] [[1, 0], [0, 1]] = Inr [[1, 0], [0, 1]]"
  "compute_score_with_logits [[0.9, 0.1], [0.2, 0.8]] [[0, 1], [0, 1]] = Inr [[0, 0], [0, 1]]"
  by (simp_all add: compute_score_with_logits_def one_hot_def mul_rows_def upt_rec)

text \<open>
  C3, as the code has it.  For logits and labels of one shape with at least one class,
  \<open>compute_score_with_logits\<close> returns a matrix whose row sums, the per-example scores,
  are the label weights at the argmax-predicted class: the weight itself, not an
  indicator of its being nonzero.  Where those weights are 0 or 1 the score is the
  indicator.  For the logits \<open>[[0.9, 0.1], [0.2, 0.8]]\<close> the labels \<open>[[1, 0], [0, 1]]\<close> give
  the per-example scores \<open>[1, 1]\<close> and the total 2, the labels \<open>[[0, 1], [0, 1]]\<close> give
  \<open>[0, 1]\<close> and the total 1.
\<close>

theorem score_is_label_weight_at_argmax:
  "(same_shape logits labels \<and> list_all (\<lambda>r. r \<noteq> []) logits
      \<longrightarrow> (\<exists>scores. compute_score_with_logits logits labels = Inr scores
             \<and> length scores = length labels
             \<and> per_example scores = map (\<lambda>(lg, lb). lb ! argmax lg) (zip logits labels)
             \<and> (list_all (\<lambda>(lg, lb). lb ! argmax lg = 0 \<or> lb ! argmax lg = 1) (zip logits labels)
                  \<longrightarrow> per_example scores
                        = map (\<lambda>(lg, lb). if lb ! argmax lg \<noteq> 0 then 1 else 0) (zip logits labels))))
   \<and> per_example (projr (compute_score_with_logits [[0.9, 0.1], [0.2, 0.8]] [[1, 0], [0, 1]])) = [1, 1]
   \<and> tensor_sum (projr (compute_score_with_logits [[0.9, 0.1], [0.2, 0.8]] [[1, 0], [0, 1]])) = 2
   \<and> per_example (projr (compute_score_with_logits [[0.9, 0.1], [0.2, 0.8]] [[0, 1], [0, 1]])) = [0, 1]
   \<and> tensor_sum (projr (compute_score_with_logits [[0.9, 0.1], [0.2, 0.8]] [[0, 1], [0, 1]])) = 1"
proof -
  have general: "same_shape logits labels \<and> list_all (\<lambda>r. r \<noteq> []) logits
      \<longrightarrow> (\<exists>scores. compute_score_with_logits logits labels = Inr scores
             \<and> length scores = length labels
             \<and> per_example scores = map (\<lambda>(lg, lb). lb ! argmax lg) (zip logits labels)
             \<and> (list_all (\<lambda>(lg, lb). lb ! argmax lg = 0 \<or> lb ! argmax lg = 1) (zip logits labels)
                  \<longrightarrow> per_example scores
                        = map (\<lambda>(lg, lb). if lb ! argmax lg \<noteq> 0 then 1 else 0) (zip logits labels)))"
    using score_general [of logits labels] by blast
  have examples:
    "per_example (projr (compute_score_with_logits [[0.9, 0.1], [0.2, 0.8]] [[1, 0], [0, 1]])) = [1, 1]"
    "tensor_sum (projr (compute_score_with_logits [[0.9, 0.1], [0.2, 0.8]] [[1, 0], [0, 1]])) = 2"
    "per_example (projr (compute_score_with_logits [[0.9, 0.1], [0.2, 0.8]] [[0, 1], [0, 1]])) = [0, 1]"
    "tensor_sum (projr (compute_score_with_logits [[0.9, 0.1], [0.2, 0.8]] [[0, 1], [0, 1]])) = 1"
    unfolding score_examples by (simp_all add: per_example_def tensor_sum_def)
  show ?thesis using general examples by blast
qed

text \<open>
  The general statement at a soft-label input and at a 0/1 input: the scores of
  \<open>[[0.7, 0.3], [0.1, 0.6]]\<close> against the labels \<open>[[0.3, 1], [0, 0.6]]\<close> are the weights
  \<open>[0.3, 0.6]\<close>; against \<open>[[0, 1], [0, 1]]\<close> they are the indicators \<open>[0, 1]\<close>.
\<close>

theorem score_is_label_weight_at_argmax_witness:
  "per_example (projr (compute_score_with_logits [[0.7, 0.3], [0.1, 0.6]] [[0.3, 1], [0, 0.6]])) = [0.3, 0.6]
   \<and> per_example (projr (compute_score_with_logits [[0.7, 0.3], [0.1, 0.6]] [[0, 1], [0, 1]])) = [0, 1]"
  using score_is_label_weight_at_argmax [of "[[0.7, 0.3], [0.1, 0.6]]" "[[0.3, 1], [0, 0.6]]"]
    score_is_label_weight_at_argmax [of "[[0.7, 0.3], [0.1, 0.6]]" "[[0, 1], [0, 1]]"]
  by (auto simp: same_shape_def)

text \<open>
  Against C3 as stated: with the soft label 0.5 at the predicted class the score of the
  example is 0.5, neither 1 nor 0.
\<close>

theorem score_not_indicator_counterexample:
  "per_example (projr (compute_score_with_logits [[0.9, 0.1]] [[0.5, 0]])) = [0.5]"
  by (simp add: compute_score_with_logits_def one_hot_def mul_rows_def per_example_def upt_rec)

section \<open>Learning-rate policy\<close>

lemma lr_decay_epochs_eq: "lr_decay_epochs = [10, 12, 14, 16, 18]"
  by (simp add: lr_decay_epochs_def py_range_def lr_decay_step_def upt_rec)

lemma epoch_lr_warmup:
  "e < 4 \<Longrightarrow> epoch_lr lr_default e cur = [0.5, 1.0, 1.5, 2.0] ! e * lr_default"
  by (auto simp: epoch_lr_def gradual_warmup_steps_def less_Suc_eq numeral_eq_Suc)

lemma epoch_lr_decay:
  "e \<in> {10, 12, 14, 16, 18} \<Longrightarrow> epoch_lr lr_default e cur = cur * 0.25"
  by (auto simp: epoch_lr_def gradual_warmup_steps_def lr_decay_epochs_eq lr_decay_rate_def)

lemma epoch_lr_keep:
  "4 \<le> e \<Longrightarrow> e \<notin> {10, 12, 14, 16, 18} \<Longrightarrow> epoch_lr lr_default e cur = cur"
  by (auto simp: epoch_lr_def gradual_warmup_steps_def lr_decay_epochs_eq)

lemma lr_during_values:
  "lr_during 0.001 lr0 0 0 = 0.0005"
  "lr_during 0.001 lr0 0 3 = 0.002"
  "lr_during 0.001 lr0 0 10 = 0.0005"
  "lr_during 0.001 lr0 0 12 = 0.000125"
  by (simp_all add: lr_during_def epoch_lr_def gradual_warmup_steps_def lr_decay_epochs_eq
      lr_decay_rate_def upt_rec)

text \<open>Nothing but lines 72-79 writes the learning rate, and nothing writes \<open>args\<close>.\<close>

lemma zero_grad_keeps: "current_lr (zero_grad st) = current_lr st" "args (zero_grad st) = args st"
  by (simp_all add: zero_grad_def)

lemma opt_keeps: "current_lr (opt st) = current_lr st" "args (opt st) = args st"
  by (simp_all add: opt_def optimizer_step_def zero_grad_def Let_def)

lemma set_flat_grads_keeps:
  "set_flat_grads st new = (st', r) \<Longrightarrow> current_lr st' = current_lr st \<and> args st' = args st"
  by (auto simp: set_flat_grads_def split: sum.splits prod.splits)

lemma all_reduce_keeps:
  "all_reduce_and_rescale st env d = (st', r) \<Longrightarrow> current_lr st' = current_lr st \<and> args st' = args st"
  by (auto simp: all_reduce_and_rescale_def Let_def split: sum.splits prod.splits
      dest: set_flat_grads_keeps)

lemma update_parameters_keeps:
  "update_parameters st env = (st', r) \<Longrightarrow> current_lr st' = current_lr st \<and> args st' = args st"
  by (auto simp: update_parameters_def Let_def clear_buffered_stats_def opt_keeps zero_grad_keeps
      split: sum.splits prod.splits option.splits dest: all_reduce_keeps)

lemma forward_keeps:
  "forward st s env ev = (st', r) \<Longrightarrow> current_lr st' = current_lr st \<and> args st' = args st"
  by (auto simp: forward_def split: sum.splits prod.splits option.splits if_splits)

lemma backward_keeps:
  "backward st l env = (st', r) \<Longrightarrow> current_lr st' = current_lr st \<and> args st' = args st"
  by (auto simp: backward_def zero_grad_keeps split: sum.splits prod.splits option.splits if_splits)

lemma forward_backward_keeps:
  "forward_backward st s env = (st', r) \<Longrightarrow> current_lr st' = current_lr st \<and> args st' = args st"
  by (auto simp: forward_backward_def buffer_stats_def
      split: sum.splits prod.splits option.splits if_splits
      dest!: forward_keeps backward_keeps)

lemma train_step_keeps:
  "train_step st s env u = (st', r) \<Longrightarrow> current_lr st' = current_lr st \<and> args st' = args st"
  by (auto simp: train_step_def
      split: sum.splits prod.splits option.splits if_splits
      dest!: forward_backward_keeps update_parameters_keeps)

lemma after_commit_keeps:
  "after_commit ar nb st tot res = ((st', tot'), r) \<Longrightarrow> current_lr st' = current_lr st \<and> args st' = args st"
  by (auto simp: after_commit_def Let_def
      split: sum.splits prod.splits option.splits if_splits bool.splits)

lemma batch_step_keeps:
  "batch_step ar nb i smp env st tot = ((st', tot'), r)
    \<Longrightarrow> current_lr st' = current_lr st \<and> args st' = args st"
  by (auto simp: batch_step_def
      split: sum.splits prod.splits option.splits if_splits bool.splits
      dest!: train_step_keeps after_commit_keeps)

lemma train_loop_keeps:
  "train_loop ar nb i bs st tot = ((st', tot'), r)
    \<Longrightarrow> current_lr st' = current_lr st \<and> args st' = args st"
proof (induction bs arbitrary: i st tot)
  case Nil
  then show ?case by simp
next
  case (Cons x bs)
  obtain smp env where x: "x = (smp, env)" by (cases x)
  obtain st1 tot1 r1 where bs1: "batch_step ar nb i smp env st tot = ((st1, tot1), r1)"
    by (metis prod.exhaust)
  have k1: "current_lr st1 = current_lr st \<and> args st1 = args st"
    using bs1 by (rule batch_step_keeps)
  show ?case
  proof (cases r1)
    case (Inl e)
    with Cons.prems x bs1 k1 show ?thesis by simp
  next
    case (Inr brk)
    show ?thesis
    proof (cases brk)
      case True
      with Cons.prems x bs1 k1 Inr show ?thesis by simp
    next
      case False
      with Cons.prems x bs1 Inr have "train_loop ar nb (Suc i) bs st1 tot1 = ((st', tot'), r)"
        by simp
      from Cons.IH [OF this] k1 show ?thesis by simp
    qed
  qed
qed

lemma train_epoch_lr:
  assumes "train_epoch e inp st = (st', Inr r)"
  shows "current_lr st' = epoch_lr (lr (args st)) e (current_lr st) \<and> args st' = args st"
proof -
  obtain nb where nb: "num_batches_of (dataset_len inp) (batch_size (args st)) = Inr nb"
    using assms by (auto simp: train_epoch_def Let_def split: sum.splits)
  obtain st1 tot1 r1 where
    tl: "train_loop (args st) nb 0 (batches inp) (set_epoch_lr e st) epoch_start = ((st1, tot1), r1)"
    by (metis prod.exhaust)
  have "st' = st1" using assms nb tl
    by (auto simp: train_epoch_def Let_def split: sum.splits if_splits option.splits prod.splits)
  moreover have "current_lr st1 = current_lr (set_epoch_lr e st) \<and> args st1 = args (set_epoch_lr e st)"
    using tl by (rule train_loop_keeps)
  ultimately show ?thesis by (simp add: set_epoch_lr_def)
qed

lemma train_epochs_lr:
  "train_epochs es inputs st = (st', Inr u)
    \<Longrightarrow> current_lr st' = fold (epoch_lr (lr (args st))) es (current_lr st) \<and> args st' = args st"
proof (induction es arbitrary: st)
  case Nil
  then show ?case by simp
next
  case (Cons e es)
  obtain st1 r1 where te: "train_epoch e (inputs e) st = (st1, Inr r1)"
    and rest: "train_epochs es inputs st1 = (st', Inr u)"
    using Cons.prems by (auto split: prod.splits sum.splits)
  from train_epoch_lr [OF te] Cons.IH [OF rest] show ?case by simp
qed

lemma lr_at_epoch:
  assumes "s_epoch \<le> e" and "train s_epoch e inputs st = (st', Inr u)"
  shows "current_lr (set_epoch_lr e st') = lr_during (lr (args st)) (current_lr st) s_epoch e"
proof -
  have "current_lr st' = fold (epoch_lr (lr (args st))) [s_epoch..<e] (current_lr st) \<and> args st' = args st"
    using assms(2) unfolding train_def by (rule train_epochs_lr)
  then show ?thesis using assms(1) by (simp add: set_epoch_lr_def lr_during_def)
qed

text \<open>Concrete runs of the definitions.\<close>

lemma l2_norm_3_4: "l2_norm [3, 4] = 5"
proof -
  have "sqrt 25 = 5" by (rule real_sqrt_unique) simp_all
  then show ?thesis by (simp add: l2_norm_def)
qed

lemmas demo_defs = demo_trainer_def new_trainer_def new_optimizer_def demo_args_def demo_env_def
  demo_out_def demo_sample_def demo_params_def oom_env_def demo_epoch_def
  overflow_env_def unused_env_def

lemmas step_defs = train_step_def forward_backward_def prepare_sample_def forward_def forward_body_def backward_def
  accumulate_def buffer_stats_def update_parameters_def all_reduce_and_rescale_def
  get_flat_grads_def numel_total_def set_flat_grads_def clip_grad_norm_spec_def Let_def opt_def
  optimizer_step_def zero_grad_def zero_param_def clear_buffered_stats_def
  compute_score_with_logits_def one_hot_def mul_rows_def tensor_sum_def

lemmas loop_defs = train_def train_epoch_def num_batches_of_def py_int_def batch_step_def
  update_params_at_def after_commit_def print_due_def epoch_start_def set_epoch_lr_def

lemma demo_train_one_epoch:
  "snd (train 0 1 (\<lambda>e. demo_epoch 1 1) (demo_trainer (demo_args 1 1 2 ''MILQT'') None)) = Inr ()"
  by (simp add: loop_defs step_defs demo_defs l2_norm_3_4 upt_rec)

text \<open>
  C1, as the code has it.  At epoch \<open>e\<close> (0-based) lines 72-79 set the learning rate to
  \<open>[0.5, 1.0, 1.5, 2.0][e]\<close> times the base rate when \<open>e < 4\<close>, multiply the rate by 0.25
  when \<open>e\<close> is one of 10, 12, 14, 16, 18, and leave it otherwise; the rate they find is the
  one the previous epoch left, so in a run from \<open>s_epoch\<close> the rate of epoch \<open>e\<close> is
  \<open>lr_during\<close>.  For the base rate 0.001 and a run from epoch 0: epoch 0 has 0.0005,
  epoch 3 is the last warm-up epoch and has 0.002, epoch 10 has 0.002 \<times> 0.25 = 0.0005 and
  epoch 12 has 0.000125.
\<close>

theorem learning_rate_schedule:
  "(e < 4 \<longrightarrow> current_lr (set_epoch_lr e st) = [0.5, 1.0, 1.5, 2.0] ! e * lr (args st))
   \<and> (e \<in> {10, 12, 14, 16, 18} \<longrightarrow> current_lr (set_epoch_lr e st) = current_lr st * 0.25)
   \<and> (4 \<le> e \<and> e \<notin> {10, 12, 14, 16, 18} \<longrightarrow> current_lr (set_epoch_lr e st) = current_lr st)
   \<and> (s_epoch \<le> e \<and> train s_epoch e inputs st = (st', Inr u)
        \<longrightarrow> current_lr (set_epoch_lr e st') = lr_during (lr (args st)) (current_lr st) s_epoch e)
   \<and> lr_during 0.001 lr0 0 0 = 0.0005
   \<and> lr_during 0.001 lr0 0 3 = 0.002
   \<and> lr_during 0.001 lr0 0 10 = 0.0005
   \<and> lr_during 0.001 lr0 0 12 = 0.000125"
proof -
  have cur: "current_lr (set_epoch_lr e st) = epoch_lr (lr (args st)) e (current_lr st)"
    by (simp add: set_epoch_lr_def)
  have warm: "e < 4 \<longrightarrow> current_lr (set_epoch_lr e st) = [0.5, 1.0, 1.5, 2.0] ! e * lr (args st)"
    unfolding cur using epoch_lr_warmup [of e] by blast
  have decay: "e \<in> {10, 12, 14, 16, 18} \<longrightarrow> current_lr (set_epoch_lr e st) = current_lr st * 0.25"
    unfolding cur using epoch_lr_decay [of e] by blast
  have keep: "4 \<le> e \<and> e \<notin> {10, 12, 14, 16, 18} \<longrightarrow> current_lr (set_epoch_lr e st) = current_lr st"
    unfolding cur using epoch_lr_keep [of e] by blast
  have run: "s_epoch \<le> e \<and> train s_epoch e inputs st = (st', Inr u)
        \<longrightarrow> current_lr (set_epoch_lr e st') = lr_during (lr (args st)) (current_lr st) s_epoch e"
    using lr_at_epoch [of s_epoch e inputs st st' u] by blast
  show ?thesis
    using warm decay keep run lr_during_values [of lr0] by blast
qed

text \<open>
  The schedule on a run: after epoch 0 of the small configuration (base rate 0.001) the
  rate of epoch 1 is 0.001; epoch 3 sets twice the base rate; epoch 10 quarters the rate
  it finds and epoch 11 keeps it.
\<close>

theorem learning_rate_schedule_witness:
  "snd (train 0 1 (\<lambda>e. demo_epoch 1 1) (demo_trainer (demo_args 1 1 2 ''MILQT'') None)) = Inr ()
   \<and> current_lr (set_epoch_lr 1
        (fst (train 0 1 (\<lambda>e. demo_epoch 1 1) (demo_trainer (demo_args 1 1 2 ''MILQT'') None)))) = 0.001
   \<and> current_lr (set_epoch_lr 3 (demo_trainer (demo_args 1 1 2 ''MILQT'') None)) = 0.002
   \<and> current_lr (set_epoch_lr 10 (demo_trainer (demo_args 1 1 2 ''MILQT'') None)) = 0.00025
   \<and> current_lr (set_epoch_lr 11 (demo_trainer (demo_args 1 1 2 ''MILQT'') None)) = 0.001"
proof -
  let ?st = "demo_trainer (demo_args 1 1 2 ''MILQT'') None"
  let ?run = "train 0 1 (\<lambda>e. demo_epoch 1 1) ?st"
  have run: "?run = (fst ?run, Inr ())"
    using demo_train_one_epoch by (metis prod.collapse)
  have a: "current_lr (set_epoch_lr 1 (fst ?run)) = 0.001"
    using learning_rate_schedule [of 1 ?st 0 "\<lambda>e. demo_epoch 1 1" "fst ?run" "()"] run
    by (simp add: lr_during_def epoch_lr_def gradual_warmup_steps_def demo_defs upt_rec)
  have b: "current_lr (set_epoch_lr 3 ?st) = 0.002"
    using learning_rate_schedule [of 3 ?st] by (simp add: demo_defs)
  have c: "current_lr (set_epoch_lr 10 ?st) = 0.00025"
    using learning_rate_schedule [of 10 ?st] by (simp add: demo_defs)
  have d: "current_lr (set_epoch_lr 11 ?st) = 0.001"
    using learning_rate_schedule [of 11 ?st] by (simp add: demo_defs)
  show ?thesis using demo_train_one_epoch a b c d by simp
qed

text \<open>
  Against C1 as stated, with base rate 0.001: lines 72-79 at epoch 3 do not leave the
  rate 0.001, and in a run from epoch 0 the rate of epoch 3 is not 0.001, that of epoch
  10 not 0.00025 and that of epoch 12 not 0.0000625.
\<close>

theorem learning_rate_examples_counterexample:
  "current_lr (set_epoch_lr 3 (demo_trainer (demo_args 1 1 2 ''MILQT'') None)) \<noteq> 0.001
   \<and> lr_during 0.001 0.001 0 3 \<noteq> 0.001
   \<and> lr_during 0.001 0.001 0 10 \<noteq> 0.00025
   \<and> lr_during 0.001 0.001 0 12 \<noteq> 0.0000625"
  by (simp add: lr_during_def set_epoch_lr_def epoch_lr_def gradual_warmup_steps_def
      lr_decay_epochs_eq lr_decay_rate_def demo_defs upt_rec)

section \<open>Gradient aggregator\<close>

lemma numel_total_simps [simp]:
  "numel_total [] = 0" "numel_total (g # gs) = length g + numel_total gs"
  by (simp_all add: numel_total_def)

lemma length_concat_numel: "length (concat gs) = numel_total gs"
  by (induction gs) simp_all

lemma flat_copy_fits:
  "offset + numel_total gs \<le> length out
    \<Longrightarrow> flat_copy gs out offset
        = (take offset out @ concat gs @ drop (offset + numel_total gs) out, Inr (offset + numel_total gs))"
proof (induction gs arbitrary: out offset)
  case Nil
  then show ?case by simp
next
  case (Cons g gs)
  let ?out = "take offset out @ g @ drop (offset + length g) out"
  from Cons.prems have fit: "offset + length g \<le> length out" by simp
  then have len: "length ?out = length out" by simp
  have tk: "take (offset + length g) ?out = take offset out @ g"
    using fit by simp
  have dr: "drop (offset + length g + numel_total gs) ?out = drop (offset + length g + numel_total gs) out"
    using fit by (simp add: ac_simps)
  have "flat_copy (g # gs) out offset = flat_copy gs ?out (offset + length g)"
    using fit by (simp add: Let_def)
  also have "\<dots> = (take (offset + length g) ?out @ concat gs
                      @ drop (offset + length g + numel_total gs) ?out,
                    Inr (offset + length g + numel_total gs))"
    using Cons.prems len by (intro Cons.IH) simp
  finally show ?case by (simp only: tk dr) (simp add: add.assoc)
qed

lemma scatter_fits:
  "get_grads ps = Inr gs \<Longrightarrow> offset + numel_total gs \<le> length new
    \<Longrightarrow> \<exists>ps' gs'. scatter_grads ps new offset = (ps', Inr ())
          \<and> get_grads ps' = Inr gs'
          \<and> concat gs' = take (numel_total gs) (drop offset new)
          \<and> map length gs' = map length gs
          \<and> map pname ps' = map pname ps \<and> map requires_grad ps' = map requires_grad ps"
proof (induction ps arbitrary: gs offset)
  case Nil
  then show ?case by simp
next
  case (Cons p ps)
  show ?case
  proof (cases "requires_grad p")
    case False
    with Cons.prems have "get_grads ps = Inr gs" by simp
    from Cons.IH [OF this Cons.prems(2)] False show ?thesis
      by (auto split: prod.splits)
  next
    case True
    with Cons.prems(1) obtain g gs0 where g: "grad p = Some g" and gs0: "get_grads ps = Inr gs0"
      and gs: "gs = g # gs0"
      by (auto split: option.splits sum.splits)
    from Cons.prems(2) gs have fit: "(offset + length g) + numel_total gs0 \<le> length new" by simp
    from Cons.IH [OF gs0 fit] obtain ps' gs' where
      sc: "scatter_grads ps new (offset + length g) = (ps', Inr ())"
      and gg: "get_grads ps' = Inr gs'"
      and cc: "concat gs' = take (numel_total gs0) (drop (offset + length g) new)"
      and ll: "map length gs' = map length gs0"
      and nn: "map pname ps' = map pname ps" "map requires_grad ps' = map requires_grad ps"
      by blast
    let ?piece = "take (length g) (drop offset new)"
    have pl: "length ?piece = length g" using fit by simp
    have "scatter_grads (p # ps) new offset = (p\<lparr>grad := Some ?piece\<rparr> # ps', Inr ())"
      using True g pl sc by (simp add: Let_def)
    moreover have "get_grads (p\<lparr>grad := Some ?piece\<rparr> # ps') = Inr (?piece # gs')"
      using True gg by simp
    moreover have "concat (?piece # gs') = take (numel_total gs) (drop offset new)"
      using cc gs by (simp add: take_add drop_drop add.commute)
    moreover have "map length (?piece # gs') = map length gs"
      using pl ll gs by simp
    ultimately show ?thesis using nn True by (intro exI [of _ "p\<lparr>grad := Some ?piece\<rparr> # ps'"] exI [of _ "?piece # gs'"]) simp
  qed
qed

lemma numel_total_cong: "map length gs' = map length gs \<Longrightarrow> numel_total gs' = numel_total gs"
  by (simp add: numel_total_def)

text \<open>
  C6.  When every trainable parameter has a gradient and the flat buffer has as many
  elements as those gradients together, \<open>_set_flat_grads\<close> followed by
  \<open>_get_flat_grads\<close> gives the buffer back: without \<open>out\<close> (which needs one gradient
  at least, for \<open>grads[0]\<close>), and with any \<open>out\<close> buffer that is long enough.
\<close>

theorem flat_grads_round_trip:
  assumes "get_grads (parameters st) = Inr gs" and "length buf = numel_total gs"
  shows "\<exists>st'. set_flat_grads st buf = (st', Inr ())
           \<and> (gs \<noteq> [] \<longrightarrow> get_flat_grads st' None = (None, Inr buf))
           \<and> (\<forall>out. length buf \<le> length out \<longrightarrow> snd (get_flat_grads st' (Some out)) = Inr buf)"
proof -
  from scatter_fits [OF assms(1), of 0 buf] assms(2) obtain ps' gs' where
    sc: "scatter_grads (parameters st) buf 0 = (ps', Inr ())"
    and gg: "get_grads ps' = Inr gs'"
    and cc: "concat gs' = buf"
    and ll: "map length gs' = map length gs"
    by auto
  let ?st = "st\<lparr>parameters := ps'\<rparr>"
  have tot: "numel_total gs' = length buf"
    using numel_total_cong [OF ll] assms(2) by simp
  have set: "set_flat_grads st buf = (?st, Inr ())"
    using assms(1) sc by (simp add: set_flat_grads_def)
  have ne: "gs' \<noteq> []" if "gs \<noteq> []" using that ll by auto
  have fresh: "flat_copy gs' (replicate (numel_total gs') 0) 0 = (buf, Inr (length buf))"
    using flat_copy_fits [of 0 gs' "replicate (numel_total gs') 0"] cc tot by simp
  have none: "get_flat_grads ?st None = (None, Inr buf)" if "gs \<noteq> []"
    using gg ne [OF that] fresh by (simp add: get_flat_grads_def)
  have some: "snd (get_flat_grads ?st (Some out)) = Inr buf" if "length buf \<le> length out" for out
  proof -
    have "flat_copy gs' out 0 = (buf @ drop (length buf) out, Inr (length buf))"
      using flat_copy_fits [of 0 gs' out] cc tot that by simp
    then show ?thesis using gg by (simp add: get_flat_grads_def)
  qed
  show ?thesis using set none some by blast
qed

theorem flat_grads_round_trip_witness:
  "snd (set_flat_grads (demo_trainer (demo_args 1 1 1 ''MILQT'') (Some [3, 4])) [7, 8]) = Inr ()
   \<and> get_flat_grads (fst (set_flat_grads (demo_trainer (demo_args 1 1 1 ''MILQT'') (Some [3, 4])) [7, 8])) None
       = (None, Inr [7, 8])
   \<and> snd (get_flat_grads (fst (set_flat_grads (demo_trainer (demo_args 1 1 1 ''MILQT'') (Some [3, 4])) [7, 8]))
            (Some [0, 0, 0])) = Inr [7, 8]"
  using flat_grads_round_trip [of "demo_trainer (demo_args 1 1 1 ''MILQT'') (Some [3, 4])" "[[3, 4]]" "[7, 8]"]
  by (auto simp: demo_defs)

section \<open>Commit: rescaling and clipping\<close>

lemma forward_keeps_buffer:
  "forward st s env ev = (st', r) \<Longrightarrow> buffered_stats st' = buffered_stats st \<and> flat_grads st' = flat_grads st"
  by (auto simp: forward_def split: sum.splits prod.splits option.splits if_splits)

lemma backward_keeps_buffer:
  "backward st l env = (st', r) \<Longrightarrow> buffered_stats st' = buffered_stats st \<and> flat_grads st' = flat_grads st"
  by (auto simp: backward_def zero_grad_def split: sum.splits prod.splits option.splits if_splits)

lemma forward_backward_buffers:
  assumes "forward_backward st s env = (st', Inr r)"
  shows "buffered_stats st' ''sample_sizes'' = buffered_stats st ''sample_sizes'' @ [1]"
    and "flat_grads st' = flat_grads st"
  using assms
  by (auto simp: forward_backward_def buffer_stats_def
      split: sum.splits prod.splits
      dest!: forward_keeps_buffer backward_keeps_buffer)

lemma buffer_steps_sizes:
  "buffer_steps st0 xs = Some st
    \<Longrightarrow> buffered_stats st ''sample_sizes'' = buffered_stats st0 ''sample_sizes'' @ replicate (length xs) 1
       \<and> flat_grads st = flat_grads st0 \<and> args st = args st0"
proof (induction xs arbitrary: st0)
  case Nil
  then show ?case by simp
next
  case (Cons x xs)
  obtain s env where x: "x = (s, env)" by (cases x)
  from Cons.prems x obtain st1 r where
    one: "train_step st0 s env False = (st1, Inr r)" and rest: "buffer_steps st1 xs = Some st"
    by (auto split: prod.splits sum.splits)
  from one obtain r' where fb: "forward_backward st0 s env = (st1, Inr r')"
    by (auto simp: train_step_def split: prod.splits sum.splits)
  have a: "args st1 = args st0" using one train_step_keeps by blast
  from forward_backward_buffers [OF fb] Cons.IH [OF rest] a show ?case
    by (simp add: replicate_append_same)
qed

lemma get_grads_map_grad:
  "get_grads ps = Inr gs \<Longrightarrow> map grad (filter requires_grad ps) = map Some gs"
  by (induction ps arbitrary: gs) (auto split: if_splits option.splits sum.splits)

lemma l2_norm_nonneg: "0 \<le> l2_norm xs"
  by (auto simp: l2_norm_def intro!: sum_list_nonneg)

lemma l2_norm_scale: "l2_norm (map (\<lambda>x. x * c) xs) = \<bar>c\<bar> * l2_norm xs"
proof -
  have "sum_list (map (\<lambda>x. (x * c) * (x * c)) xs) = c\<^sup>2 * sum_list (map (\<lambda>x. x * x) xs)"
    by (induction xs) (simp_all add: power2_eq_square algebra_simps)
  then show ?thesis
    by (simp add: l2_norm_def comp_def real_sqrt_mult)
qed

lemma clip_spec_norm:
  assumes "0 \<le> m" and "m < l2_norm t"
  shows "l2_norm (map (\<lambda>x. x * (m / l2_norm t)) t) = m"
proof -
  have pos: "0 < l2_norm t" using assms by simp
  have "l2_norm (map (\<lambda>x. x * (m / l2_norm t)) t) = \<bar>m / l2_norm t\<bar> * l2_norm t"
    by (rule l2_norm_scale)
  also have "\<dots> = m" using pos assms(1) by simp
  finally show ?thesis .
qed

lemma all_reduce_with_spec_clip:
  assumes grads: "get_grads (parameters st) = Inr gs"
    and buf: "case flat_grads st of None \<Rightarrow> gs \<noteq> [] | Some b \<Rightarrow> numel_total gs \<le> length b"
    and clipfn: "utils_clip_grad_norm env = clip_grad_norm_spec"
  shows "\<exists>ps' gs'. all_reduce_and_rescale st env d
            = (st\<lparr>flat_grads := Some (concat gs'), parameters := ps'\<rparr>,
               Inr (l2_norm (map (\<lambda>x. x / real_of_int d) (concat gs))))
          \<and> get_grads ps' = Inr gs' \<and> map length gs' = map length gs
          \<and> concat gs' = (let scaled = map (\<lambda>x. x / real_of_int d) (concat gs);
                              c = clip_norm (args st)
                          in if l2_norm scaled > c then map (\<lambda>x. x * (c / l2_norm scaled)) scaled else scaled)"
proof -
  let ?scaled = "map (\<lambda>x. x / real_of_int d) (concat gs)"
  let ?c = "clip_norm (args st)"
  let ?clipped = "if l2_norm ?scaled > ?c then map (\<lambda>x. x * (?c / l2_norm ?scaled)) ?scaled else ?scaled"
  have flat: "snd (get_flat_grads st (flat_grads st)) = Inr (concat gs)"
  proof (cases "flat_grads st")
    case None
    with buf have ne: "gs \<noteq> []" by simp
    have "flat_copy gs (replicate (numel_total gs) 0) 0 = (concat gs, Inr (numel_total gs))"
      using flat_copy_fits [of 0 gs "replicate (numel_total gs) 0"] by (simp add: length_concat_numel)
    then show ?thesis using None grads ne by (simp add: get_flat_grads_def length_concat_numel)
  next
    case (Some b)
    with buf have "numel_total gs \<le> length b" by simp
    then have "flat_copy gs b 0 = (concat gs @ drop (numel_total gs) b, Inr (numel_total gs))"
      using flat_copy_fits [of 0 gs b] by simp
    then show ?thesis using Some grads by (simp add: get_flat_grads_def length_concat_numel)
  qed
  have clip: "utils_clip_grad_norm env ?scaled ?c = Inr (?clipped, l2_norm ?scaled)"
    by (simp add: clipfn clip_grad_norm_spec_def Let_def)
  have len: "length ?clipped = numel_total gs"
    by (simp add: length_concat_numel)
  let ?st = "st\<lparr>flat_grads := Some ?clipped\<rparr>"
  from scatter_fits [of "parameters st" gs 0 ?clipped] grads len obtain ps' gs' where
    sc: "scatter_grads (parameters st) ?clipped 0 = (ps', Inr ())"
    and gg: "get_grads ps' = Inr gs'"
    and cc: "concat gs' = ?clipped"
    and ll: "map length gs' = map length gs"
    by auto
  have set: "set_flat_grads ?st ?clipped = (?st\<lparr>parameters := ps'\<rparr>, Inr ())"
    using grads sc by (simp add: set_flat_grads_def)
  obtain b0 where g0: "get_flat_grads st (flat_grads st) = (b0, Inr (concat gs))"
    using flat by (metis prod.collapse)
  have run: "all_reduce_and_rescale st env d = (?st\<lparr>parameters := ps'\<rparr>, Inr (l2_norm ?scaled))"
    unfolding all_reduce_and_rescale_def g0 using clip set by (simp add: Let_def)
  have st_eq: "?st\<lparr>parameters := ps'\<rparr> = st\<lparr>flat_grads := Some (concat gs'), parameters := ps'\<rparr>"
    by (simp only: cc)
  have cc': "concat gs' = (let scaled = ?scaled; c = ?c
                          in if l2_norm scaled > c then map (\<lambda>x. x * (c / l2_norm scaled)) scaled else scaled)"
    by (simp only: cc Let_def)
  show ?thesis
    by (intro exI [of _ ps'] exI [of _ gs'] conjI) (simp only: run st_eq, fact gg, fact ll, fact cc')
qed

text \<open>
  C5, as the code has it.  Let a commit follow \<open>length xs\<close> buffering calls of
  \<open>train_step\<close>, counted from a state with empty buffered stats, and let the forward and
  backward pass of the committing micro-batch leave the gradients \<open>gs\<close>.  With
  \<open>utils.clip_grad_norm_\<close> as the specification describes it and a non-negative
  \<open>clip_norm\<close>, the flat buffer is the concatenation of \<open>gs\<close> divided by
  \<open>length xs + 1\<close>: the number of \<open>train_step\<close> calls since the buffered stats were
  last cleared, the committing one included, whether or not a call ran out of memory
  and added no gradient.  \<open>train_step\<close> returns the norm of that buffer (the pre-clip
  norm); when the norm exceeds \<open>clip_norm\<close> the buffer is scaled by \<open>clip_norm / norm\<close>
  and then has norm \<open>clip_norm\<close>, otherwise it is left as it is; and this buffer is what
  the optimizer step sees as gradients.
\<close>

theorem commit_rescales_and_clips:
  assumes fresh: "buffered_stats st0 = (\<lambda>k. [])"
    and steps: "buffer_steps st0 xs = Some st"
    and clipfn: "utils_clip_grad_norm env = clip_grad_norm_spec"
    and nonneg: "0 \<le> clip_norm (args st)"
    and fb: "forward_backward st sample env = (st3, Inr (loss, bs, bqs))"
    and grads: "get_grads (parameters st3) = Inr gs"
    and buf: "case flat_grads st of None \<Rightarrow> gs \<noteq> [] | Some b \<Rightarrow> numel_total gs \<le> length b"
  shows "let scaled = map (\<lambda>x. x / real (length xs + 1)) (concat gs); c = clip_norm (args st) in
     \<exists>st' gs'. train_step st sample env True = (st', Inr (Some (loss, l2_norm scaled, bs, bqs)))
        \<and> flat_grads st' = Some (concat gs')
        \<and> step_history (optimizer st') = step_history (optimizer st3) @ [(current_lr st, map Some gs')]
        \<and> map length gs' = map length gs
        \<and> (if l2_norm scaled > c
            then concat gs' = map (\<lambda>x. x * (c / l2_norm scaled)) scaled \<and> l2_norm (concat gs') = c
            else concat gs' = scaled)
        \<and> buffered_stats st' = (\<lambda>k. [])"
proof -
  let ?k = "length xs + 1"
  let ?scaled = "map (\<lambda>x. x / real ?k) (concat gs)"
  let ?c = "clip_norm (args st)"
  have sizes: "buffered_stats st ''sample_sizes'' = replicate (length xs) 1"
    using buffer_steps_sizes [OF steps] fresh by simp
  have sizes3: "buffered_stats st3 ''sample_sizes'' = replicate (length xs) 1 @ [1]"
    using forward_backward_buffers(1) [OF fb] sizes by simp
  have denom: "real_of_int (sum_list (buffered_stats st3 ''sample_sizes'')) = real ?k"
    by (simp add: sizes3 sum_list_replicate)
  have keep: "current_lr st3 = current_lr st \<and> args st3 = args st"
    using fb by (rule forward_backward_keeps)
  have buf3: "case flat_grads st3 of None \<Rightarrow> gs \<noteq> [] | Some b \<Rightarrow> numel_total gs \<le> length b"
    using buf forward_backward_buffers(2) [OF fb] by simp
  from all_reduce_with_spec_clip [OF grads buf3 clipfn, of "sum_list (buffered_stats st3 ''sample_sizes'')"]
  obtain ps' gs' where
    ar: "all_reduce_and_rescale st3 env (sum_list (buffered_stats st3 ''sample_sizes''))
           = (st3\<lparr>flat_grads := Some (concat gs'), parameters := ps'\<rparr>, Inr (l2_norm ?scaled))"
    and gg: "get_grads ps' = Inr gs'"
    and ll: "map length gs' = map length gs"
    and cc: "concat gs' = (if l2_norm ?scaled > ?c then map (\<lambda>x. x * (?c / l2_norm ?scaled)) ?scaled else ?scaled)"
    unfolding denom keep [THEN conjunct2] Let_def by blast
  have seen: "map grad (filter requires_grad ps') = map Some gs'"
    using gg by (rule get_grads_map_grad)
  obtain st' where up: "update_parameters st3 env = (st', Inr (l2_norm ?scaled))"
    and fl: "flat_grads st' = Some (concat gs')"
    and hist: "step_history (optimizer st') = step_history (optimizer st3) @ [(current_lr st, map Some gs')]"
    and cleared: "buffered_stats st' = (\<lambda>k. [])"
    using ar seen keep
    by (simp add: update_parameters_def Let_def opt_def optimizer_step_def zero_grad_def
        clear_buffered_stats_def)
  have ts: "train_step st sample env True = (st', Inr (Some (loss, l2_norm ?scaled, bs, bqs)))"
    using fb up by (simp add: train_step_def)
  have clipped: "if l2_norm ?scaled > ?c
            then concat gs' = map (\<lambda>x. x * (?c / l2_norm ?scaled)) ?scaled \<and> l2_norm (concat gs') = ?c
            else concat gs' = ?scaled"
  proof (cases "l2_norm ?scaled > ?c")
    case True
    then have "concat gs' = map (\<lambda>x. x * (?c / l2_norm ?scaled)) ?scaled"
      using cc by (simp only: if_True)
    moreover have "l2_norm (map (\<lambda>x. x * (?c / l2_norm ?scaled)) ?scaled) = ?c"
      using nonneg True by (rule clip_spec_norm)
    ultimately show ?thesis using True by (simp only: if_True)
  next
    case False
    then show ?thesis using cc by (simp only: if_False)
  qed
  show ?thesis
    unfolding Let_def using ts fl hist ll clipped cleared by blast
qed

text \<open>
  A commit after one buffered micro-batch: the gradients \<open>[6, 8]\<close> of two micro-batches
  are divided by 2, the norm 5 is returned, and the buffer is clipped to norm 0.25.
\<close>

lemma demo_buffered_once:
  "buffer_steps (demo_trainer (demo_args 1 2 1 ''MILQT'') None) [(Some demo_sample, demo_env)]
     = Some ((demo_trainer (demo_args 1 2 1 ''MILQT'') None)
          \<lparr>parameters := demo_params (Some [3, 4]),
           buffered_stats := (\<lambda>k. [])(''sample_sizes'' := [1], ''ooms_fwd'' := [0], ''ooms_bwd'' := [0])\<rparr>)"
  by (simp add: step_defs demo_defs upt_rec)

lemma demo_second_pass:
  "forward_backward ((demo_trainer (demo_args 1 2 1 ''MILQT'') None)
          \<lparr>parameters := demo_params (Some [3, 4]),
           buffered_stats := (\<lambda>k. [])(''sample_sizes'' := [1], ''ooms_fwd'' := [0], ''ooms_bwd'' := [0])\<rparr>)
       (Some demo_sample) demo_env
     = ((demo_trainer (demo_args 1 2 1 ''MILQT'') None)
          \<lparr>parameters := demo_params (Some [6, 8]),
           buffered_stats := (\<lambda>k. [])(''sample_sizes'' := [1, 1], ''ooms_fwd'' := [0, 0], ''ooms_bwd'' := [0, 0])\<rparr>,
        Inr (Some 1, 1, Some 1))"
  by (simp add: step_defs demo_defs upt_rec)

theorem commit_rescales_and_clips_witness:
  "snd (train_step (the (buffer_steps (demo_trainer (demo_args 1 2 1 ''MILQT'') None) [(Some demo_sample, demo_env)]))
          (Some demo_sample) demo_env True)
     = Inr (Some (Some 1, 5, 1, Some 1))
   \<and> flat_grads (fst (train_step (the (buffer_steps (demo_trainer (demo_args 1 2 1 ''MILQT'') None) [(Some demo_sample, demo_env)]))
          (Some demo_sample) demo_env True))
     = Some [0.15, 0.2]"
proof -
  let ?init = "demo_trainer (demo_args 1 2 1 ''MILQT'') None"
  let ?mid = "?init\<lparr>parameters := demo_params (Some [3, 4]),
           buffered_stats := (\<lambda>k. [])(''sample_sizes'' := [1], ''ooms_fwd'' := [0], ''ooms_bwd'' := [0])\<rparr>"
  let ?after = "?init\<lparr>parameters := demo_params (Some [6, 8]),
           buffered_stats := (\<lambda>k. [])(''sample_sizes'' := [1, 1], ''ooms_fwd'' := [0, 0], ''ooms_bwd'' := [0, 0])\<rparr>"
  have h1: "buffered_stats ?init = (\<lambda>k. [])" by (simp add: demo_defs)
  have h3: "utils_clip_grad_norm demo_env = clip_grad_norm_spec" by (simp add: demo_defs)
  have h4: "0 \<le> clip_norm (args ?mid)" by (simp add: demo_defs)
  have h6: "get_grads (parameters ?after) = Inr [[6, 8]]" by (simp add: demo_defs)
  have h7: "case flat_grads ?mid of None \<Rightarrow> [[6, 8 :: real]] \<noteq> [] | Some b \<Rightarrow> numel_total [[6, 8]] \<le> length b"
    by (simp add: demo_defs)
  have sc: "map (\<lambda>x. x / real (length [(Some demo_sample, demo_env)] + 1)) (concat [[6, 8]]) = [3, 4]"
    by simp
  have c: "clip_norm (args ?mid) = 0.25" by (simp add: demo_defs)
  from commit_rescales_and_clips [OF h1 demo_buffered_once h3 h4 demo_second_pass h6 h7]
  obtain st' where
    ts: "train_step ?mid (Some demo_sample) demo_env True = (st', Inr (Some (Some 1, 5, 1, Some 1)))"
    and fl: "flat_grads st' = Some [0.15, 0.2]"
    unfolding Let_def sc c l2_norm_3_4 by auto
  show ?thesis
    unfolding demo_buffered_once option.sel using ts fl by simp
qed

text \<open>
  A micro-batch whose forward pass runs out of memory is buffered with sample size 1
  and leaves the gradients as they were.
\<close>

lemma l2_norm_half: "l2_norm [3 / 2, 2] = 5 / 2"
proof -
  have "sqrt (25 / 4) = 5 / 2"
    by (rule real_sqrt_unique) (simp_all add: power2_eq_square)
  then show ?thesis by (simp add: l2_norm_def)
qed

lemma demo_oom_buffered:
  "buffer_steps (demo_trainer (demo_args 1 2 2 ''MILQT'') None) [(Some demo_sample, oom_env)]
     = Some ((demo_trainer (demo_args 1 2 2 ''MILQT'') None)
          \<lparr>buffered_stats := (\<lambda>k. [])(''sample_sizes'' := [1], ''ooms_fwd'' := [1], ''ooms_bwd'' := [0]),
           printed := [''| WARNING: ran out of memory, skipping batch'']\<rparr>)"
  by (simp add: step_defs demo_defs upt_rec)

text \<open>
  Against C5 as stated.  After a micro-batch whose forward pass ran out of memory the
  parameters still have no gradient, so the committing micro-batch is the only one that
  contributes, with the gradient \<open>[3, 4]\<close>.  Committed alone, it is divided by 1 and the
  norm 5 is returned; committed after the out-of-memory micro-batch, it is divided by 2
  and the norm 5/2 is returned.
\<close>

theorem denominator_counts_oom_counterexample:
  "parameters (the (buffer_steps (demo_trainer (demo_args 1 2 2 ''MILQT'') None) [(Some demo_sample, oom_env)]))
     = demo_params None
   \<and> snd (train_step (demo_trainer (demo_args 1 2 2 ''MILQT'') None) (Some demo_sample) demo_env True)
     = Inr (Some (Some 1, 5, 1, Some 1))
   \<and> snd (train_step
          (the (buffer_steps (demo_trainer (demo_args 1 2 2 ''MILQT'') None) [(Some demo_sample, oom_env)]))
          (Some demo_sample) demo_env True)
     = Inr (Some (Some 1, 5 / 2, 1, Some 1))"
  unfolding demo_oom_buffered option.sel
  by (simp add: step_defs demo_defs l2_norm_3_4 l2_norm_half upt_rec)

section \<open>Commit: exceptions\<close>

lemma get_grads_raises_runtime: "get_grads ps = Inl e \<Longrightarrow> overflow_msg e = None"
  by (induction ps) (auto split: if_splits option.splits sum.splits)

lemma flat_copy_raises_runtime: "flat_copy gs out offset = (buf, Inl e) \<Longrightarrow> overflow_msg e = None"
  by (induction gs arbitrary: out offset) (auto simp: Let_def split: if_splits)

lemma get_flat_grads_raises_runtime: "get_flat_grads st out = (buf, Inl e) \<Longrightarrow> overflow_msg e = None"
  by (auto simp: get_flat_grads_def split: sum.splits option.splits if_splits prod.splits
      dest: get_grads_raises_runtime flat_copy_raises_runtime)

lemma scatter_raises_runtime: "scatter_grads ps new offset = (ps', Inl e) \<Longrightarrow> overflow_msg e = None"
  by (induction ps new offset arbitrary: ps' rule: scatter_grads.induct)
    (auto simp: Let_def split: if_splits option.splits prod.splits)

lemma set_flat_grads_raises_runtime: "set_flat_grads st new = (st', Inl e) \<Longrightarrow> overflow_msg e = None"
  by (auto simp: set_flat_grads_def split: sum.splits prod.splits
      dest: get_grads_raises_runtime scatter_raises_runtime)

lemma all_reduce_overflow:
  assumes "all_reduce_and_rescale st env d = (st', Inl (OverflowError msg))"
  shows "\<exists>flat. st' = st\<lparr>flat_grads := Some flat\<rparr>
           \<and> utils_clip_grad_norm env flat (clip_norm (args st)) = Inl (OverflowError msg)"
  using assms
  by (auto simp: all_reduce_and_rescale_def Let_def split: sum.splits prod.splits
      dest: get_flat_grads_raises_runtime set_flat_grads_raises_runtime)

lemma zero_param_zeroed: "grads_zeroed (map zero_param ps)"
  by (induction ps) (auto simp: grads_zeroed_def zero_param_def list_all_iff split: option.splits)

lemma train_step_commit_clears:
  "train_step st sample env True = (st', Inr r) \<Longrightarrow> buffered_stats st' = (\<lambda>k. [])"
  by (auto simp: train_step_def update_parameters_def Let_def clear_buffered_stats_def
      split: prod.splits sum.splits option.splits)

text \<open>
  C7.  A committing \<open>train_step\<close> that returns has cleared the buffered stats.  When
  the forward and backward pass went through and \<open>_all_reduce_and_rescale\<close> raises an
  \<open>OverflowError\<close>, \<open>train_step\<close> does not raise: it returns the step's loss and scores
  with \<open>grad_norm = 0\<close>, has taken no optimizer step, has called \<open>zero_grad\<close> once so
  that every gradient is zero, has printed the warning, and has cleared the buffered
  stats.
\<close>

theorem overflow_on_commit_is_recovered:
  "(\<forall>st' r. train_step st sample env True = (st', Inr r) \<longrightarrow> buffered_stats st' = (\<lambda>k. []))
   \<and> (forward_backward st sample env = (st3, Inr (loss, bs, bqs))
        \<and> all_reduce_and_rescale st3 env (sum_list (buffered_stats st3 ''sample_sizes''))
            = (st4, Inl (OverflowError msg))
      \<longrightarrow> (\<exists>st'. train_step st sample env True = (st', Inr (Some (loss, 0, bs, bqs)))
             \<and> step_history (optimizer st') = step_history (optimizer st3)
             \<and> num_updates_trainer st' = num_updates_trainer st3
             \<and> zero_grad_calls (optimizer st') = Suc (zero_grad_calls (optimizer st3))
             \<and> parameters st' = map zero_param (parameters st3)
             \<and> grads_zeroed (parameters st')
             \<and> printed st' = printed st3 @ [''| WARNING: overflow detected, '' @ msg]
             \<and> buffered_stats st' = (\<lambda>k. [])))"
proof (intro conjI allI impI)
  fix st' r
  assume "train_step st sample env True = (st', Inr r)"
  then show "buffered_stats st' = (\<lambda>k. [])" by (rule train_step_commit_clears)
next
  assume a: "forward_backward st sample env = (st3, Inr (loss, bs, bqs))
        \<and> all_reduce_and_rescale st3 env (sum_list (buffered_stats st3 ''sample_sizes''))
            = (st4, Inl (OverflowError msg))"
  then obtain flat where st4: "st4 = st3\<lparr>flat_grads := Some flat\<rparr>"
    using all_reduce_overflow by blast
  let ?st' = "clear_buffered_stats ((zero_grad st4)\<lparr>printed := printed (zero_grad st4) @ [''| WARNING: overflow detected, '' @ msg]\<rparr>)"
  have up: "update_parameters st3 env = (?st', Inr 0)"
    using a by (simp add: update_parameters_def Let_def)
  have ts: "train_step st sample env True = (?st', Inr (Some (loss, 0, bs, bqs)))"
    using a up by (simp add: train_step_def)
  have z: "grads_zeroed (parameters ?st')"
    by (simp add: clear_buffered_stats_def zero_grad_def zero_param_zeroed)
  show "\<exists>st'. train_step st sample env True = (st', Inr (Some (loss, 0, bs, bqs)))
             \<and> step_history (optimizer st') = step_history (optimizer st3)
             \<and> num_updates_trainer st' = num_updates_trainer st3
             \<and> zero_grad_calls (optimizer st') = Suc (zero_grad_calls (optimizer st3))
             \<and> parameters st' = map zero_param (parameters st3)
             \<and> grads_zeroed (parameters st')
             \<and> printed st' = printed st3 @ [''| WARNING: overflow detected, '' @ msg]
             \<and> buffered_stats st' = (\<lambda>k. [])"
    using ts z by (intro exI [of _ ?st']) (simp add: st4 clear_buffered_stats_def zero_grad_def)
qed

text \<open>The small configuration with a clipping function that raises.\<close>

lemma demo_forward_backward:
  "forward_backward (demo_trainer (demo_args 1 1 1 ''MILQT'') None) (Some demo_sample) overflow_env
     = ((demo_trainer (demo_args 1 1 1 ''MILQT'') None)
          \<lparr>parameters := demo_params (Some [3, 4]),
           buffered_stats := (\<lambda>k. [])(''sample_sizes'' := [1], ''ooms_fwd'' := [0], ''ooms_bwd'' := [0])\<rparr>,
        Inr (Some 1, 1, Some 1))"
  by (simp add: step_defs demo_defs upt_rec)

lemma demo_overflow:
  "all_reduce_and_rescale ((demo_trainer (demo_args 1 1 1 ''MILQT'') None)
          \<lparr>parameters := demo_params (Some [3, 4]),
           buffered_stats := (\<lambda>k. [])(''sample_sizes'' := [1], ''ooms_fwd'' := [0], ''ooms_bwd'' := [0])\<rparr>)
       overflow_env
       (sum_list (buffered_stats ((demo_trainer (demo_args 1 1 1 ''MILQT'') None)
          \<lparr>parameters := demo_params (Some [3, 4]),
           buffered_stats := (\<lambda>k. [])(''sample_sizes'' := [1], ''ooms_fwd'' := [0], ''ooms_bwd'' := [0])\<rparr>) ''sample_sizes''))
     = ((demo_trainer (demo_args 1 1 1 ''MILQT'') None)
          \<lparr>parameters := demo_params (Some [3, 4]),
           buffered_stats := (\<lambda>k. [])(''sample_sizes'' := [1], ''ooms_fwd'' := [0], ''ooms_bwd'' := [0]),
           flat_grads := Some [3, 4]\<rparr>,
        Inl (OverflowError ''norm is inf''))"
  by (simp add: step_defs demo_defs upt_rec)

theorem overflow_on_commit_is_recovered_witness:
  "snd (train_step (demo_trainer (demo_args 1 1 1 ''MILQT'') None) (Some demo_sample) overflow_env True)
     = Inr (Some (Some 1, 0, 1, Some 1))
   \<and> step_history (optimizer (fst (train_step (demo_trainer (demo_args 1 1 1 ''MILQT'') None)
        (Some demo_sample) overflow_env True))) = []
   \<and> parameters (fst (train_step (demo_trainer (demo_args 1 1 1 ''MILQT'') None)
        (Some demo_sample) overflow_env True)) = demo_params (Some [0, 0])
   \<and> printed (fst (train_step (demo_trainer (demo_args 1 1 1 ''MILQT'') None)
        (Some demo_sample) overflow_env True)) = [''| WARNING: overflow detected, norm is inf'']
   \<and> buffered_stats (fst (train_step (demo_trainer (demo_args 1 1 1 ''MILQT'') None)
        (Some demo_sample) overflow_env True)) ''sample_sizes'' = []"
proof -
  let ?init = "demo_trainer (demo_args 1 1 1 ''MILQT'') None"
  let ?mid = "?init\<lparr>parameters := demo_params (Some [3, 4]),
           buffered_stats := (\<lambda>k. [])(''sample_sizes'' := [1], ''ooms_fwd'' := [0], ''ooms_bwd'' := [0])\<rparr>"
  let ?ovf = "?mid\<lparr>flat_grads := Some [3, 4]\<rparr>"
  have "\<exists>st'. train_step ?init (Some demo_sample) overflow_env True = (st', Inr (Some (Some 1, 0, 1, Some 1)))
             \<and> step_history (optimizer st') = step_history (optimizer ?mid)
             \<and> num_updates_trainer st' = num_updates_trainer ?mid
             \<and> zero_grad_calls (optimizer st') = Suc (zero_grad_calls (optimizer ?mid))
             \<and> parameters st' = map zero_param (parameters ?mid)
             \<and> grads_zeroed (parameters st')
             \<and> printed st' = printed ?mid @ [''| WARNING: overflow detected, '' @ ''norm is inf'']
             \<and> buffered_stats st' = (\<lambda>k. [])"
    using overflow_on_commit_is_recovered
        [of ?init "Some demo_sample" overflow_env ?mid "Some 1" 1 "Some 1" ?ovf "''norm is inf''",
         THEN conjunct2, THEN mp, OF conjI, OF demo_forward_backward demo_overflow] .
  then obtain st' where "train_step ?init (Some demo_sample) overflow_env True = (st', Inr (Some (Some 1, 0, 1, Some 1)))"
     and "step_history (optimizer st') = []"
     and "parameters st' = demo_params (Some [0, 0])"
     and "printed st' = [''| WARNING: overflow detected, norm is inf'']"
     and "buffered_stats st' = (\<lambda>k. [])"
    by (auto simp: demo_defs zero_param_def)
  then show ?thesis by simp
qed

lemma get_grads_missing:
  "list_ex (\<lambda>p. requires_grad p \<and> grad p = None) ps
    \<Longrightarrow> \<exists>p. p \<in> set ps \<and> requires_grad p \<and> grad p = None
          \<and> get_grads ps = Inl (RuntimeError (''Model parameter did not receive gradient: '' @ pname p
                     @ ''. Use the param in the forward pass or set requires_grad=False''))"
proof (induction ps)
  case Nil
  then show ?case by simp
next
  case (Cons q ps)
  show ?case
  proof (cases "requires_grad q \<and> grad q = None")
    case True
    then show ?thesis by (intro exI [of _ q]) simp
  next
    case False
    with Cons.prems have "list_ex (\<lambda>p. requires_grad p \<and> grad p = None) ps" by auto
    from Cons.IH [OF this] obtain p where "p \<in> set ps" "requires_grad p" "grad p = None"
      and "get_grads ps = Inl (RuntimeError (''Model parameter did not receive gradient: '' @ pname p
                     @ ''. Use the param in the forward pass or set requires_grad=False''))"
      by blast
    with False show ?thesis by (intro exI [of _ p]) (auto split: option.splits)
  qed
qed

text \<open>
  C8.  When, after the forward and backward pass of a committing step, a parameter with
  \<open>requires_grad\<close> has no gradient, \<open>train_step\<close> ends with the \<open>RuntimeError\<close> that
  \<open>_get_grads\<close> raises for such a parameter: the \<open>except OverflowError\<close> of the commit
  does not catch it, and the out-of-memory handlers enclose only the forward and the
  backward pass.  The buffered stats are not cleared and no step is taken.
\<close>

theorem missing_gradient_propagates:
  assumes fb: "forward_backward st sample env = (st3, Inr (loss, bs, bqs))"
    and missing: "list_ex (\<lambda>p. requires_grad p \<and> grad p = None) (parameters st3)"
  shows "\<exists>p. p \<in> set (parameters st3) \<and> requires_grad p \<and> grad p = None
           \<and> train_step st sample env True
               = (st3, Inl (RuntimeError (''Model parameter did not receive gradient: '' @ pname p
                     @ ''. Use the param in the forward pass or set requires_grad=False'')))"
proof -
  from get_grads_missing [OF missing] obtain p where
    p: "p \<in> set (parameters st3)" "requires_grad p" "grad p = None"
    and gg: "get_grads (parameters st3) = Inl (RuntimeError (''Model parameter did not receive gradient: '' @ pname p
                     @ ''. Use the param in the forward pass or set requires_grad=False''))"
    by blast
  let ?e = "RuntimeError (''Model parameter did not receive gradient: '' @ pname p
                     @ ''. Use the param in the forward pass or set requires_grad=False'')"
  have "all_reduce_and_rescale st3 env d = (st3, Inl ?e)" for d
    using gg by (simp add: all_reduce_and_rescale_def get_flat_grads_def)
  then have "update_parameters st3 env = (st3, Inl ?e)"
    by (simp add: update_parameters_def Let_def)
  then have "train_step st sample env True = (st3, Inl ?e)"
    using fb by (simp add: train_step_def)
  with p show ?thesis by blast
qed

text \<open>A backward pass that leaves the trainable parameter without a gradient.\<close>

lemma demo_unused_pass:
  "forward_backward (demo_trainer (demo_args 1 1 1 ''MILQT'') None) (Some demo_sample) unused_env
     = ((demo_trainer (demo_args 1 1 1 ''MILQT'') None)
          \<lparr>buffered_stats := (\<lambda>k. [])(''sample_sizes'' := [1], ''ooms_fwd'' := [0], ''ooms_bwd'' := [0])\<rparr>,
        Inr (Some 1, 1, Some 1))"
  by (simp add: step_defs demo_defs upt_rec)

theorem missing_gradient_propagates_witness:
  "snd (train_step (demo_trainer (demo_args 1 1 1 ''MILQT'') None) (Some demo_sample) unused_env True)
     = Inl (RuntimeError (''Model parameter did not receive gradient: w''
                     @ ''. Use the param in the forward pass or set requires_grad=False''))"
proof -
  let ?init = "demo_trainer (demo_args 1 1 1 ''MILQT'') None"
  let ?mid = "?init\<lparr>buffered_stats := (\<lambda>k. [])(''sample_sizes'' := [1], ''ooms_fwd'' := [0], ''ooms_bwd'' := [0])\<rparr>"
  have m: "list_ex (\<lambda>p. requires_grad p \<and> grad p = None) (parameters ?mid)"
    by (simp add: demo_defs)
  from missing_gradient_propagates [OF demo_unused_pass m]
  show ?thesis by (auto simp: demo_defs)
qed

section \<open>Out of memory in the forward pass\<close>

lemma forward_oom:
  assumes "forward_body (args st) smp (model_call env) = Inl e" and "is_oom e"
  shows "forward st (Some smp) env False
           = (st\<lparr>printed := printed st @ [''| WARNING: ran out of memory, skipping batch'']\<rparr>,
              Inr (None, length (sample_v smp), 1, 0, None))"
  using assms by (simp add: forward_def)

text \<open>
  C2, as the code has it, for a buffering step.  When the forward pass raises an
  out-of-memory \<open>RuntimeError\<close> in \<open>train_step\<close> with \<open>update_params=False\<close>, the error
  is caught: the warning is printed, no backward pass runs, and \<open>train_step\<close> returns
  \<open>None\<close>.  The optimizer is left exactly as it was: no step, and no \<open>zero_grad\<close> either;
  the gradients and the flat buffer are untouched.  The step is still buffered, with
  sample size 1 and the forward flag 1, and the driver's loop goes on to the next
  micro-batch.
\<close>

theorem forward_oom_while_buffering:
  assumes "forward_body (args st) smp (model_call env) = Inl e" and "is_oom e"
  shows "\<exists>st'. train_step st (Some smp) env False = (st', Inr None)
           \<and> printed st' = printed st @ [''| WARNING: ran out of memory, skipping batch'']
           \<and> optimizer st' = optimizer st
           \<and> parameters st' = parameters st
           \<and> flat_grads st' = flat_grads st
           \<and> buffered_stats st' ''sample_sizes'' = buffered_stats st ''sample_sizes'' @ [1]
           \<and> buffered_stats st' ''ooms_fwd'' = buffered_stats st ''ooms_fwd'' @ [1]
           \<and> buffered_stats st' ''ooms_bwd'' = buffered_stats st ''ooms_bwd'' @ [0]
           \<and> (update_params_at nb (update_freq ar) i = Inr False
                \<longrightarrow> batch_step ar nb i smp env st tot = ((st', tot), Inr False))"
proof -
  let ?st1 = "st\<lparr>printed := printed st @ [''| WARNING: ran out of memory, skipping batch'']\<rparr>"
  let ?st' = "buffer_stats ?st1 1 0"
  have fb: "forward_backward st (Some smp) env = (?st', Inr (None, 0, None))"
    using forward_oom [OF assms] by (simp add: forward_backward_def prepare_sample_def backward_def)
  then have ts: "train_step st (Some smp) env False = (?st', Inr None)"
    by (simp add: train_step_def)
  then have bs: "update_params_at nb (update_freq ar) i = Inr False
                \<longrightarrow> batch_step ar nb i smp env st tot = ((?st', tot), Inr False)"
    by (simp add: batch_step_def)
  show ?thesis
    using ts bs by (intro exI [of _ ?st']) (simp add: buffer_stats_def)
qed

theorem forward_oom_while_buffering_witness:
  "snd (train_step (demo_trainer (demo_args 1 2 1 ''MILQT'') (Some [3, 4])) (Some demo_sample) oom_env False)
     = Inr None
   \<and> optimizer (fst (train_step (demo_trainer (demo_args 1 2 1 ''MILQT'') (Some [3, 4])) (Some demo_sample) oom_env False))
     = new_optimizer (demo_args 1 2 1 ''MILQT'')
   \<and> parameters (fst (train_step (demo_trainer (demo_args 1 2 1 ''MILQT'') (Some [3, 4])) (Some demo_sample) oom_env False))
     = demo_params (Some [3, 4])
   \<and> printed (fst (train_step (demo_trainer (demo_args 1 2 1 ''MILQT'') (Some [3, 4])) (Some demo_sample) oom_env False))
     = [''| WARNING: ran out of memory, skipping batch'']
   \<and> buffered_stats (fst (train_step (demo_trainer (demo_args 1 2 1 ''MILQT'') (Some [3, 4])) (Some demo_sample) oom_env False))
        ''ooms_fwd'' = [1]"
proof -
  let ?init = "demo_trainer (demo_args 1 2 1 ''MILQT'') (Some [3, 4])"
  have h1: "forward_body (args ?init) demo_sample (model_call oom_env) = Inl (RuntimeError ''CUDA out of memory'')"
    by (simp add: forward_body_def demo_defs)
  have h2: "is_oom (RuntimeError ''CUDA out of memory'')" by simp
  from forward_oom_while_buffering [OF h1 h2]
  obtain st' where "train_step ?init (Some demo_sample) oom_env False = (st', Inr None)"
    and "optimizer st' = optimizer ?init" and "parameters st' = parameters ?init"
    and "printed st' = printed ?init @ [''| WARNING: ran out of memory, skipping batch'']"
    and "buffered_stats st' ''ooms_fwd'' = buffered_stats ?init ''ooms_fwd'' @ [1]"
    by blast
  then show ?thesis by (simp add: demo_defs)
qed

text \<open>
  Against C2 as stated, on a trainer holding the gradient \<open>[3, 4]\<close>: after a buffering
  step with an out-of-memory forward pass \<open>zero_grad\<close> has not been called; and a
  committing step with an out-of-memory forward pass takes an optimizer step, so the
  optimizer's state changes.
\<close>

theorem forward_oom_counterexample:
  "zero_grad_calls (optimizer (fst (train_step (demo_trainer (demo_args 1 2 1 ''MILQT'') (Some [3, 4]))
        (Some demo_sample) oom_env False))) = 0
   \<and> step_history (optimizer (fst (train_step (demo_trainer (demo_args 1 2 1 ''MILQT'') (Some [3, 4]))
        (Some demo_sample) oom_env True))) = [(0.001, [Some [0.15, 0.2]])]
   \<and> optimizer (fst (train_step (demo_trainer (demo_args 1 2 1 ''MILQT'') (Some [3, 4]))
        (Some demo_sample) oom_env True)) \<noteq> optimizer (demo_trainer (demo_args 1 2 1 ''MILQT'') (Some [3, 4]))"
  by (simp add: step_defs demo_defs l2_norm_3_4 upt_rec)

text \<open>
  In the driver such a committing step returns no loss, and \<open>loss.item()\<close> (train.py 97)
  raises.
\<close>

lemma forward_oom_on_commit_breaks_driver:
  "snd (batch_step (demo_args 1 2 1 ''MILQT'') 2 1 demo_sample oom_env
          (demo_trainer (demo_args 1 2 1 ''MILQT'') (Some [3, 4])) epoch_start)
     = Inl (AttributeError ''NoneType object has no attribute item'')"
  by (simp add: loop_defs step_defs demo_defs l2_norm_3_4 upt_rec)

section \<open>The model name\<close>

text \<open>
  C10.  With a model name other than MILQT, \<open>train_step\<close> raises on every sample: the
  score computation of \<open>_forward\<close> reads the unassigned \<open>final_preds\<close> (or, with no
  sample, \<open>len(sample[0])\<close> fails), neither of which the \<open>except RuntimeError\<close> catches;
  and \<open>evaluate\<close> raises on its first batch, where \<open>final_preds\<close> is \<open>None\<close>.
\<close>

theorem model_name_precondition:
  assumes "model (args st) \<noteq> ''MILQT''"
  shows "train_step st (Some smp) env u
           = (st, Inl (UnboundLocalError ''local variable final_preds referenced before assignment''))
       \<and> train_step st None env u = (st, Inl (TypeError ''NoneType object is not subscriptable''))
       \<and> (data \<noteq> [] \<longrightarrow> evaluate (model (args st)) n data
               = Inl (TypeError ''max(): argument input must be Tensor, not NoneType''))"
proof -
  have a: "train_step st (Some smp) env u
           = (st, Inl (UnboundLocalError ''local variable final_preds referenced before assignment''))"
    using assms by (simp add: train_step_def forward_backward_def prepare_sample_def forward_def forward_body_def)
  have b: "train_step st None env u = (st, Inl (TypeError ''NoneType object is not subscriptable''))"
    by (simp add: train_step_def forward_backward_def prepare_sample_def forward_def)
  have c: "evaluate (model (args st)) n data
               = Inl (TypeError ''max(): argument input must be Tensor, not NoneType'')" if "data \<noteq> []"
  proof -
    from that obtain smp' mc rest where "data = (smp', mc) # rest" by (cases data) auto
    then show ?thesis using assms by (simp add: evaluate_def evaluate_batch_def)
  qed
  show ?thesis using a b c by blast
qed

theorem model_name_precondition_witness:
  "train_step (demo_trainer (demo_args 1 1 1 ''BAN'') None) (Some demo_sample) demo_env True
     = (demo_trainer (demo_args 1 1 1 ''BAN'') None,
        Inl (UnboundLocalError ''local variable final_preds referenced before assignment''))
   \<and> evaluate ''BAN'' 1 [(demo_sample, Inr demo_out)]
     = Inl (TypeError ''max(): argument input must be Tensor, not NoneType'')"
proof -
  have m: "model (args (demo_trainer (demo_args 1 1 1 ''BAN'') None)) \<noteq> ''MILQT''"
    by (simp add: demo_defs)
  have n: "model (args (demo_trainer (demo_args 1 1 1 ''BAN'') None)) = ''BAN''"
    by (simp add: demo_defs)
  from model_name_precondition [OF m, of demo_sample demo_env True "[(demo_sample, Inr demo_out)]" 1]
  show ?thesis unfolding n by simp
qed

section \<open>The driver's loop\<close>

lemma py_int_zero_iff: "py_int x = 0 \<longleftrightarrow> \<bar>x\<bar> < 1"
proof (cases "0 \<le> x")
  case True
  then show ?thesis by (simp add: py_int_def floor_eq_iff)
next
  case False
  then show ?thesis by (auto simp: py_int_def ceiling_eq_iff)
qed

lemma print_divisor_zero_iff:
  assumes "u \<noteq> 0"
  shows "py_int (real_of_int p / real_of_int u) = 0 \<longleftrightarrow> \<bar>p\<bar> < \<bar>u\<bar>"
proof -
  have "\<bar>real_of_int p / real_of_int u\<bar> < 1 \<longleftrightarrow> \<bar>real_of_int p\<bar> < \<bar>real_of_int u\<bar>"
    using assms by (simp add: abs_divide)
  also have "\<dots> \<longleftrightarrow> \<bar>p\<bar> < \<bar>u\<bar>"
    by linarith
  finally show ?thesis by (simp add: py_int_zero_iff)
qed

lemma print_due_raises_iff:
  assumes "update_freq ar \<noteq> 0"
  shows "print_due ar n = Inl (ZeroDivisionError ''integer division or modulo by zero'')
           \<longleftrightarrow> \<bar>print_interval ar\<bar> < \<bar>update_freq ar\<bar>"
  using assms print_divisor_zero_iff [of "update_freq ar" "print_interval ar"]
  by (auto simp: print_due_def Let_def)

text \<open>
  C9.  The divisor \<open>int(print_interval / update_freq)\<close> of line 101 is 0 exactly when
  \<open>|print_interval| < |update_freq|\<close>, and then the test raises \<open>ZeroDivisionError\<close>.  So
  for every configuration with \<open>0 \<le> print_interval < update_freq\<close> the iteration of the
  loop raises for every committing micro-batch whose \<open>train_step\<close> returned a loss, the
  first commit of the epoch included; with \<open>1 \<le> update_freq \<le> print_interval\<close> the test
  does not raise.
\<close>

theorem print_interval_precondition:
  "(update_freq ar \<noteq> 0
      \<longrightarrow> (print_due ar n = Inl (ZeroDivisionError ''integer division or modulo by zero'')
            \<longleftrightarrow> \<bar>print_interval ar\<bar> < \<bar>update_freq ar\<bar>))
   \<and> (0 \<le> print_interval ar \<and> print_interval ar < update_freq ar
      \<longrightarrow> print_due ar n = Inl (ZeroDivisionError ''integer division or modulo by zero'')
          \<and> (update_params_at nb (update_freq ar) i = Inr True
                \<and> train_step st (Some smp) env True = (st', Inr (Some (Some l, g, s, Some qs)))
              \<longrightarrow> snd (batch_step ar nb i smp env st tot)
                    = Inl (ZeroDivisionError ''integer division or modulo by zero'')))
   \<and> (1 \<le> update_freq ar \<and> update_freq ar \<le> print_interval ar
      \<longrightarrow> (\<exists>due. print_due ar n = Inr due))"
proof (intro conjI impI)
  assume "update_freq ar \<noteq> 0"
  then show "print_due ar n = Inl (ZeroDivisionError ''integer division or modulo by zero'')
            \<longleftrightarrow> \<bar>print_interval ar\<bar> < \<bar>update_freq ar\<bar>"
    by (rule print_due_raises_iff)
next
  assume a: "0 \<le> print_interval ar \<and> print_interval ar < update_freq ar"
  then show "print_due ar n = Inl (ZeroDivisionError ''integer division or modulo by zero'')"
    using print_due_raises_iff [of ar n] by simp
next
  assume a: "0 \<le> print_interval ar \<and> print_interval ar < update_freq ar"
  assume b: "update_params_at nb (update_freq ar) i = Inr True
                \<and> train_step st (Some smp) env True = (st', Inr (Some (Some l, g, s, Some qs)))"
  have pd: "print_due ar k = Inl (ZeroDivisionError ''integer division or modulo by zero'')" for k
    using a print_due_raises_iff [of ar k] by simp
  show "snd (batch_step ar nb i smp env st tot)
                    = Inl (ZeroDivisionError ''integer division or modulo by zero'')"
    using b pd by (simp add: batch_step_def after_commit_def Let_def)
next
  assume c: "1 \<le> update_freq ar \<and> update_freq ar \<le> print_interval ar"
  then have "\<not> \<bar>print_interval ar\<bar> < \<bar>update_freq ar\<bar>" by simp
  then have "py_int (real_of_int (print_interval ar) / real_of_int (update_freq ar)) \<noteq> 0"
    using c print_divisor_zero_iff [of "update_freq ar" "print_interval ar"] by simp
  then show "\<exists>due. print_due ar n = Inr due"
    using c by (auto simp: print_due_def Let_def)
qed

text \<open>A commit with \<open>update_freq = 3\<close> and \<open>print_interval = 2\<close>.\<close>

lemma demo_commit_step:
  "train_step (demo_trainer (demo_args 1 3 2 ''MILQT'') None) (Some demo_sample) demo_env True
     = ((demo_trainer (demo_args 1 3 2 ''MILQT'') None)
          \<lparr>parameters := demo_params (Some [0, 0]),
           optimizer := \<lparr>group_lr = 0.001, step_history = [(0.001, [Some [0.15, 0.2]])], zero_grad_calls = 1\<rparr>,
           meters := \<lparr>gnorm = [5], clip = [1], oom = [0]\<rparr>,
           flat_grads := Some [0.15, 0.2],
           num_updates_trainer := 1\<rparr>,
        Inr (Some (Some 1, 5, 1, Some 1)))"
  by (simp add: step_defs demo_defs l2_norm_3_4 upt_rec)

theorem print_interval_precondition_witness:
  "snd (batch_step (demo_args 1 3 2 ''MILQT'') 2 2 demo_sample demo_env
          (demo_trainer (demo_args 1 3 2 ''MILQT'') None) epoch_start)
     = Inl (ZeroDivisionError ''integer division or modulo by zero'')
   \<and> print_due (demo_args 1 3 2 ''MILQT'') 1 = Inl (ZeroDivisionError ''integer division or modulo by zero'')
   \<and> print_due (demo_args 1 2 4 ''MILQT'') 1 = Inr False
   \<and> print_due (demo_args 1 2 4 ''MILQT'') 2 = Inr True"
proof -
  have u: "update_params_at 2 (update_freq (demo_args 1 3 2 ''MILQT'')) 2 = Inr True"
    by (simp add: update_params_at_def demo_defs)
  have p: "0 \<le> print_interval (demo_args 1 3 2 ''MILQT'')
           \<and> print_interval (demo_args 1 3 2 ''MILQT'') < update_freq (demo_args 1 3 2 ''MILQT'')"
    by (simp add: demo_defs)
  have q: "1 \<le> update_freq (demo_args 1 2 4 ''MILQT'')
           \<and> update_freq (demo_args 1 2 4 ''MILQT'') \<le> print_interval (demo_args 1 2 4 ''MILQT'')"
    by (simp add: demo_defs)
  note t = print_interval_precondition [of "demo_args 1 3 2 ''MILQT''" 1 2 2
      "demo_trainer (demo_args 1 3 2 ''MILQT'') None" demo_sample demo_env _ 1 5 1 1 epoch_start]
  have a: "snd (batch_step (demo_args 1 3 2 ''MILQT'') 2 2 demo_sample demo_env
          (demo_trainer (demo_args 1 3 2 ''MILQT'') None) epoch_start)
     = Inl (ZeroDivisionError ''integer division or modulo by zero'')"
    using t p u demo_commit_step by blast
  have b: "print_due (demo_args 1 3 2 ''MILQT'') 1 = Inl (ZeroDivisionError ''integer division or modulo by zero'')"
    using t p by blast
  have "\<exists>due. print_due (demo_args 1 2 4 ''MILQT'') 1 = Inr due"
    using print_interval_precondition [of "demo_args 1 2 4 ''MILQT''" 1] q by blast
  then have c: "print_due (demo_args 1 2 4 ''MILQT'') 1 = Inr False"
    by (simp add: print_due_def demo_defs py_int_def)
  have d: "print_due (demo_args 1 2 4 ''MILQT'') 2 = Inr True"
    by (simp add: print_due_def demo_defs py_int_def)
  show ?thesis using a b c d by simp
qed

text \<open>
  The commit decision of line 90, for a positive batch size: micro-batch \<open>i\<close> commits
  when it ends a group of \<open>update_freq\<close> or when \<open>i \<ge> N div batch_size\<close>.  The last
  micro-batch of a loader that yields \<open>ceil(N / batch_size)\<close> micro-batches has index
  \<open>N div batch_size\<close> only when the batch size does not divide \<open>N\<close>.
\<close>

lemma num_batches_pos:
  assumes "0 < bsz"
  shows "num_batches_of N bsz = Inr (int N div bsz + 1)"
proof -
  have "0 \<le> real N / real_of_int bsz + 1" using assms by simp
  moreover have "\<lfloor>real N / real_of_int bsz + 1\<rfloor> = int N div bsz + 1"
    using floor_divide_of_int_eq [of "int N" bsz, where ?'a = real] by simp
  ultimately show ?thesis using assms by (simp add: num_batches_of_def py_int_def)
qed

lemma update_params_at_char:
  assumes "0 < bsz" and "upd_freq \<noteq> 0"
  shows "update_params_at (int N div bsz + 1) upd_freq i
           = Inr ((int i + 1) mod upd_freq \<le> 0 \<or> int N div bsz \<le> int i)"
  using assms by (auto simp: update_params_at_def)

lemma group_end_commits:
  assumes "upd_freq \<noteq> 0" and "(int i + 1) mod upd_freq = 0"
  shows "update_params_at nb upd_freq i = Inr True"
  using assms by (simp add: update_params_at_def)

lemma within_group_buffers:
  assumes "0 < upd_freq" and "(int i + 1) mod upd_freq \<noteq> 0" and "int i < nb - 1"
  shows "update_params_at nb upd_freq i = Inr False"
proof -
  have "0 \<le> (int i + 1) mod upd_freq" using assms(1) by simp
  then have "0 < (int i + 1) mod upd_freq" using assms(2) by linarith
  then show ?thesis using assms(1,3) by (simp add: update_params_at_def)
qed

lemma last_commits_when_not_divisible:
  assumes "0 < bsz" and "\<not> bsz dvd int N" and "upd_freq \<noteq> 0"
  shows "update_params_at (int N div bsz + 1) upd_freq (nat (int N div bsz)) = Inr True"
proof -
  have "0 \<le> int N div bsz" using assms(1) by (simp add: pos_imp_zdiv_nonneg_iff)
  then show ?thesis using assms by (simp add: update_params_at_def)
qed


text \<open>
  C4 on the code.  A dataset of 3 examples with batch size 1 and \<open>update_freq = 2\<close>:
  \<open>num_batches\<close> is 4, the three micro-batches are passed
  \<open>update_params = False, True, False\<close>, and the epoch ends with one optimizer step
  taken and the last micro-batch still buffered, its gradient \<open>[3, 4]\<close> not applied.
  With a single example no micro-batch commits and line 106 divides by zero.
\<close>

theorem final_micro_batch_left_uncommitted:
  "num_batches_of 3 1 = Inr 4
   \<and> map (update_params_at 4 2) [0, 1, 2] = [Inr False, Inr True, Inr False]
   \<and> snd (train_epoch 0 (demo_epoch 3 3) (demo_trainer (demo_args 1 2 2 ''MILQT'') None)) = Inr (1, 100, 100, None)
   \<and> length (step_history (optimizer (fst (train_epoch 0 (demo_epoch 3 3) (demo_trainer (demo_args 1 2 2 ''MILQT'') None))))) = 1
   \<and> buffered_stats (fst (train_epoch 0 (demo_epoch 3 3) (demo_trainer (demo_args 1 2 2 ''MILQT'') None))) ''sample_sizes'' = [1]
   \<and> parameters (fst (train_epoch 0 (demo_epoch 3 3) (demo_trainer (demo_args 1 2 2 ''MILQT'') None))) = demo_params (Some [3, 4])
   \<and> map (update_params_at 2 2) [0] = [Inr False]
   \<and> snd (train_epoch 0 (demo_epoch 1 1) (demo_trainer (demo_args 1 2 2 ''MILQT'') None)) = Inl (ZeroDivisionError ''division by zero'')"
  by (simp add: loop_defs step_defs demo_defs l2_norm_3_4 upt_rec numeral_3_eq_3)


end
